theory Spec2Isabelle
  imports Main
begin

section \<open>The Vizier trial loop of the PatchCamelyon notebook\<close>

text \<open>
  This theory embeds the hyperparameter-tuning cells of
  \<^verbatim>\<open>ml_notebooks/image_classification/pcam/04_vizier_pcam_model_training.ipynb\<close>:
  the functions \<^verbatim>\<open>run_model_training\<close> and \<^verbatim>\<open>CreateMetrics\<close> and the cell
  "Run Vertex Vizier trials" (the \<^verbatim>\<open>while\<close> loop over suggested trials).

  The Vizier client and the Keras training run are libraries outside the repository.
  They are parameters of the model: functions on an abstract world \<open>'w\<close> that either
  raise or return a result and the next world.
\<close>

subsection \<open>Python values and exceptions\<close>

datatype error =
    NameError
  | ValueError
  | TypeError
  | OverflowError
  | KeyError
  | IndexError
  | ServiceError string

text \<open>
  A Python float is a binary fraction \<open>m * 2 ^ e\<close>, an infinity or a NaN. The driver
  never computes with floats; it only truncates one with \<^verbatim>\<open>int(...)\<close>.
\<close>

datatype pyfloat = Finite int int | Infinity bool | NaN

datatype pyval = PNone | PBool bool | PInt int | PFloat pyfloat | PStr string

subsection \<open>\<^verbatim>\<open>int(x)\<close>\<close>

text \<open>
  \<^verbatim>\<open>int\<close> of a float truncates towards zero; it raises \<^verbatim>\<open>OverflowError\<close> on an
  infinity and \<^verbatim>\<open>ValueError\<close> on a NaN.
\<close>

fun trunc_float :: "int \<Rightarrow> int \<Rightarrow> int" where
  "trunc_float m e =
     (if 0 \<le> e then m * 2 ^ nat e
      else if 0 \<le> m then m div 2 ^ nat (- e)
      else - ((- m) div 2 ^ nat (- e)))"

text \<open>
  \<^verbatim>\<open>int\<close> of a string reads a base-10 literal: whitespace around it is dropped, one
  sign may lead, and single underscores may stand between digits. Strings are ASCII
  text here.
\<close>

definition is_space :: "char \<Rightarrow> bool" where
  "is_space c = (c \<in> set [CHR 0x09, CHR 0x0A, CHR 0x0B, CHR 0x0C, CHR 0x0D, CHR 0x20])"

definition strip :: "string \<Rightarrow> string" where
  "strip s = rev (dropWhile is_space (rev (dropWhile is_space s)))"

definition digit_val :: "char \<Rightarrow> int option" where
  "digit_val c =
     (let k = (of_char c :: nat) in
      if of_char CHR ''0'' \<le> k \<and> k \<le> of_char CHR ''9''
      then Some (int k - int (of_char CHR ''0'' :: nat))
      else None)"

fun parse_digits :: "int \<Rightarrow> bool \<Rightarrow> string \<Rightarrow> int option" where
  "parse_digits acc prev [] = (if prev then Some acc else None)"
| "parse_digits acc prev (c # cs) =
     (if c = CHR ''_'' then
        (if prev \<and> cs \<noteq> [] then parse_digits acc False cs else None)
      else (case digit_val c of
              None \<Rightarrow> None
            | Some d \<Rightarrow> parse_digits (10 * acc + d) True cs))"

definition int_of_str :: "string \<Rightarrow> int option" where
  "int_of_str s =
     (case strip s of
        [] \<Rightarrow> None
      | c # cs \<Rightarrow>
          if c = CHR ''-'' then map_option uminus (parse_digits 0 False cs)
          else if c = CHR ''+'' then parse_digits 0 False cs
          else parse_digits 0 False (c # cs))"

fun py_int :: "pyval \<Rightarrow> error + int" where
  "py_int PNone = Inl TypeError"
| "py_int (PBool b) = Inr (if b then 1 else 0)"
| "py_int (PInt n) = Inr n"
| "py_int (PFloat (Finite m e)) = Inr (trunc_float m e)"
| "py_int (PFloat (Infinity _)) = Inl OverflowError"
| "py_int (PFloat NaN) = Inl ValueError"
| "py_int (PStr s) = (case int_of_str s of None \<Rightarrow> Inl ValueError | Some n \<Rightarrow> Inr n)"

subsection \<open>\<^verbatim>\<open>s.split("/")\<close> and \<^verbatim>\<open>xs[-1]\<close>\<close>

fun split_on :: "char \<Rightarrow> string \<Rightarrow> string list" where
  "split_on sep [] = [[]]"
| "split_on sep (c # cs) =
     (if c = sep then [] # split_on sep cs
      else (case split_on sep cs of
              [] \<Rightarrow> [[c]]
            | w # ws \<Rightarrow> (c # w) # ws))"

definition py_last :: "'a list \<Rightarrow> error + 'a" where
  "py_last xs = (if xs = [] then Inl IndexError else Inr (last xs))"

subsection \<open>Trials, measurements and the external services\<close>

text \<open>
  The state of a trial is a member of the enumeration \<^verbatim>\<open>Trial.State\<close> of the client
  library that the notebook imports (\<^verbatim>\<open>aiplatform.gapic\<close>; the library is not part of
  the repository). The members are integers with names: the client
  \<^verbatim>\<open>VizierServiceClient\<close> that the notebook builds hands out such a member, never a
  \<^verbatim>\<open>str\<close>.
\<close>

datatype trial_state =
    STATE_UNSPECIFIED
  | REQUESTED
  | ACTIVE
  | STOPPING
  | SUCCEEDED
  | INFEASIBLE

text \<open>
  \<^verbatim>\<open>trial.state in ["COMPLETED", "INFEASIBLE"]\<close>: the test compares the member with each
  string by \<^verbatim>\<open>==\<close>. A member of the enumeration equals members of its own type and
  integers only; compared with a \<^verbatim>\<open>str\<close> it is unequal, whatever the string says.
\<close>

definition state_eq :: "trial_state \<Rightarrow> string \<Rightarrow> bool" where
  "state_eq member str = False"

definition state_in :: "trial_state \<Rightarrow> string list \<Rightarrow> bool" where
  "state_in member strs = list_ex (state_eq member) strs"

text \<open>
  A trial as the cell reads it: its resource name, its state, and its parameters, each
  an id with the value suggested for it. A metric is the dictionary
  \<^verbatim>\<open>{"metric_id": ..., "value": ...}\<close>.
\<close>

record parameter =
  parameter_id :: string
  param_value :: pyval

record trial =
  name :: string
  state :: trial_state
  parameters :: "parameter list"

record metric =
  metric_id :: string
  metric_value :: pyval

type_synonym history = "string \<rightharpoonup> pyval list"

text \<open>
  The remote calls of \<^verbatim>\<open>vizier_client\<close> that the loop makes, and the training run
  (\<^verbatim>\<open>batch\<close>, \<^verbatim>\<open>get_compiled_model\<close>, \<^verbatim>\<open>model.fit\<close>) whose result is
  \<^verbatim>\<open>model.history.history\<close>. \<open>suggest_trials\<close> stands for the request followed by
  \<^verbatim>\<open>.result().trials\<close>.
\<close>

record 'w services =
  suggest_trials :: "string \<Rightarrow> int \<Rightarrow> string \<Rightarrow> 'w \<Rightarrow> error + (trial list \<times> 'w)"
  get_trial :: "string \<Rightarrow> 'w \<Rightarrow> error + (trial \<times> 'w)"
  add_trial_measurement :: "string \<Rightarrow> metric list \<Rightarrow> 'w \<Rightarrow> error + 'w"
  complete_trial :: "string \<Rightarrow> bool \<Rightarrow> 'w \<Rightarrow> error + 'w"
  model_fit :: "int \<Rightarrow> pyval \<Rightarrow> string \<Rightarrow> int \<Rightarrow> 'w \<Rightarrow> error + (history \<times> 'w)"

text \<open>The notebook's constants.\<close>

record config =
  BUCKET :: string
  STUDY_ID :: string
  STUDY_DISPLAY_NAME :: string
  client_id :: string
  suggestion_count_per_request :: int
  max_trial_id_to_stop :: int
  EPOCHS :: int

subsection \<open>The driver's state\<close>

text \<open>
  The calls the notebook issues are recorded, in order, with how each one ended; the
  record is not a variable of the notebook but the trace of its effects.
\<close>

datatype call =
    SuggestTrials string int string
  | GetTrial string
  | CreateMetricsCall string int pyval int string
  | AddTrialMeasurement string "metric list"
  | CompleteTrial string bool

datatype outcome = Returned | Raised error

text \<open>
  The notebook variables that one iteration can read before it writes them:
  \<^verbatim>\<open>trial_id\<close>, \<^verbatim>\<open>batch_size\<close> and \<^verbatim>\<open>learning_rate\<close> (\<open>None\<close> is an unbound
  name). The other variables of the cell (\<^verbatim>\<open>suggest_response\<close>, \<^verbatim>\<open>suggested_trial\<close>,
  \<^verbatim>\<open>trial\<close>, \<^verbatim>\<open>param\<close>, \<^verbatim>\<open>response\<close>) are always assigned before they are read.
\<close>

record 'w driver =
  trial_id :: pyval
  batch_size :: "pyval option"
  learning_rate :: "pyval option"
  world :: 'w
  calls :: "(call \<times> outcome) list"

type_synonym 'w result = "(error \<times> 'w driver) + 'w driver"

definition log_call :: "call \<Rightarrow> outcome \<Rightarrow> 'w driver \<Rightarrow> 'w driver" where
  "log_call c oc st = st\<lparr>calls := calls st @ [(c, oc)]\<rparr>"

subsection \<open>\<^verbatim>\<open>run_model_training\<close> and \<^verbatim>\<open>CreateMetrics\<close>\<close>

text \<open>
  \<^verbatim>\<open>run_model_training\<close> returns \<^verbatim>\<open>(model, val_accuracy)\<close>; its caller drops the
  model, and so does the embedding.
\<close>

definition run_model_training ::
  "'w services \<Rightarrow> int \<Rightarrow> pyval \<Rightarrow> string \<Rightarrow> int \<Rightarrow> 'w \<Rightarrow> error + (pyval \<times> 'w)" where
  "run_model_training env batch_sz learning_rt log_dir epochs w =
     (case model_fit env batch_sz learning_rt log_dir epochs w of
        Inl e \<Rightarrow> Inl e
      | Inr (hist, w') \<Rightarrow>
          (case hist ''val_accuracy'' of
             None \<Rightarrow> Inl KeyError
           | Some accs \<Rightarrow>
               (case py_last accs of
                  Inl e \<Rightarrow> Inl e
                | Inr val_accuracy \<Rightarrow>
                    (case hist ''val_loss'' of
                       None \<Rightarrow> Inl KeyError
                     | Some losses \<Rightarrow>
                         (case py_last losses of
                            Inl e \<Rightarrow> Inl e
                          | Inr val_loss \<Rightarrow> Inr (val_accuracy, w'))))))"

definition CreateMetrics ::
  "'w services \<Rightarrow> config \<Rightarrow> string \<Rightarrow> int \<Rightarrow> pyval \<Rightarrow> int \<Rightarrow> string \<Rightarrow> 'w
     \<Rightarrow> error + (metric list \<times> 'w)" where
  "CreateMetrics env cfg trial_nm batch_sz learning_rt epochs study_disp_name w =
     (case py_last (split_on CHR ''/'' trial_nm) of
        Inl e \<Rightarrow> Inl e
      | Inr seg \<Rightarrow>
          (let LOG_DIR = BUCKET cfg @ ''/logs/pcam/'' @ study_disp_name @ ''/'' @ seg in
           case run_model_training env batch_sz learning_rt LOG_DIR epochs w of
             Inl e \<Rightarrow> Inl e
           | Inr (accuracy, w') \<Rightarrow>
               Inr ([\<lparr>metric_id = ''accuracy'', metric_value = accuracy\<rparr>], w')))"

subsection \<open>The cell "Run Vertex Vizier trials"\<close>

text \<open>\<^verbatim>\<open>for param in trial.parameters: ...\<close>\<close>

fun assign_parameters :: "parameter list \<Rightarrow> 'w driver \<Rightarrow> 'w driver" where
  "assign_parameters [] st = st"
| "assign_parameters (param # ps) st =
     assign_parameters ps
       (if parameter_id param = ''batch_size'' then st\<lparr>batch_size := Some (param_value param)\<rparr>
        else if parameter_id param = ''learning_rate''
          then st\<lparr>learning_rate := Some (param_value param)\<rparr>
        else st)"

text \<open>The body of \<^verbatim>\<open>for suggested_trial in suggest_response.result().trials\<close>.\<close>

definition process_trial :: "'w services \<Rightarrow> config \<Rightarrow> trial \<Rightarrow> 'w driver \<Rightarrow> 'w result" where
  "process_trial env cfg suggested_trial st =
     (case py_last (split_on CHR ''/'' (name suggested_trial)) of
        Inl e \<Rightarrow> Inl (e, st)
      | Inr seg \<Rightarrow>
     (let st1 = st\<lparr>trial_id := PStr seg\<rparr> in
      case get_trial env (name suggested_trial) (world st1) of
        Inl e \<Rightarrow> Inl (e, log_call (GetTrial (name suggested_trial)) (Raised e) st1)
      | Inr (trial, w2) \<Rightarrow>
     (let st2 = log_call (GetTrial (name suggested_trial)) Returned (st1\<lparr>world := w2\<rparr>) in
      if state_in (state trial) [''COMPLETED'', ''INFEASIBLE''] then Inr st2
      else
     (let st3 = assign_parameters (parameters trial) st2 in
      case batch_size st3 of
        None \<Rightarrow> Inl (NameError, st3)
      | Some b \<Rightarrow>
     (case learning_rate st3 of
        None \<Rightarrow> Inl (NameError, st3)
      | Some l \<Rightarrow>
     (case py_int b of
        Inl e \<Rightarrow> Inl (e, st3)
      | Inr n \<Rightarrow>
     (let c4 = CreateMetricsCall (name suggested_trial) n l (EPOCHS cfg)
                 (STUDY_DISPLAY_NAME cfg) in
      case CreateMetrics env cfg (name suggested_trial) n l (EPOCHS cfg)
             (STUDY_DISPLAY_NAME cfg) (world st3) of
        Inl e \<Rightarrow> Inl (e, log_call c4 (Raised e) st3)
      | Inr (metrics, w4) \<Rightarrow>
     (let st4 = log_call c4 Returned (st3\<lparr>world := w4\<rparr>);
          c5 = AddTrialMeasurement (name suggested_trial) metrics in
      case add_trial_measurement env (name suggested_trial) metrics (world st4) of
        Inl e \<Rightarrow> Inl (e, log_call c5 (Raised e) st4)
      | Inr w5 \<Rightarrow>
     (let st5 = log_call c5 Returned (st4\<lparr>world := w5\<rparr>);
          c6 = CompleteTrial (name suggested_trial) False in
      case complete_trial env (name suggested_trial) False (world st5) of
        Inl e \<Rightarrow> Inl (e, log_call c6 (Raised e) st5)
      | Inr w6 \<Rightarrow> Inr (log_call c6 Returned (st5\<lparr>world := w6\<rparr>)))))))))))"

fun for_trials :: "'w services \<Rightarrow> config \<Rightarrow> trial list \<Rightarrow> 'w driver \<Rightarrow> 'w result" where
  "for_trials env cfg [] st = Inr st"
| "for_trials env cfg (suggested_trial # ts) st =
     (case process_trial env cfg suggested_trial st of
        Inl x \<Rightarrow> Inl x
      | Inr st' \<Rightarrow> for_trials env cfg ts st')"

text \<open>The body of the \<^verbatim>\<open>while\<close> loop: one suggestion request and its trials.\<close>

definition iteration :: "'w services \<Rightarrow> config \<Rightarrow> 'w driver \<Rightarrow> 'w result" where
  "iteration env cfg st =
     (let c = SuggestTrials (STUDY_ID cfg) (suggestion_count_per_request cfg) (client_id cfg) in
      case suggest_trials env (STUDY_ID cfg) (suggestion_count_per_request cfg) (client_id cfg)
             (world st) of
        Inl e \<Rightarrow> Inl (e, log_call c (Raised e) st)
      | Inr (trials, w') \<Rightarrow> for_trials env cfg trials (log_call c Returned (st\<lparr>world := w'\<rparr>)))"

text \<open>
  \<^verbatim>\<open>while int(trial_id) < max_trial_id_to_stop: ...\<close>. The loop may run forever; a run
  that does not return is the value \<open>None\<close>.
\<close>

partial_function (option) trial_loop ::
  "'w services \<Rightarrow> config \<Rightarrow> 'w driver \<Rightarrow> 'w result option" where
  "trial_loop env cfg st =
     (case py_int (trial_id st) of
        Inl e \<Rightarrow> Some (Inl (e, st))
      | Inr n \<Rightarrow>
          if n < max_trial_id_to_stop cfg then
            (case iteration env cfg st of
               Inl x \<Rightarrow> Some (Inl x)
             | Inr st' \<Rightarrow> trial_loop env cfg st')
          else Some (Inr st))"

declare trial_loop.simps [code]

text \<open>
  The state in which the cell starts: \<^verbatim>\<open>trial_id = 0\<close>, \<^verbatim>\<open>batch_size = 32\<close> from the
  cell that shows sample images, \<^verbatim>\<open>learning_rate\<close> unbound.
\<close>

definition initial :: "'w \<Rightarrow> 'w driver" where
  "initial w = \<lparr>trial_id = PInt 0, batch_size = Some (PInt 32), learning_rate = None,
                world = w, calls = []\<rparr>"

subsection \<open>Runs of the loop\<close>

text \<open>The driver state that a result carries: the final one, or the one at the raise.\<close>

fun state_of :: "'w result \<Rightarrow> 'w driver" where
  "state_of (Inl (e, st)) = st"
| "state_of (Inr st) = st"

text \<open>The calls that a step from \<open>st\<close> has added to the trace.\<close>

definition new_calls :: "'w driver \<Rightarrow> 'w result \<Rightarrow> (call \<times> outcome) list" where
  "new_calls st r = drop (length (calls st)) (calls (state_of r))"

text \<open>
  The state at the head of the \<^verbatim>\<open>while\<close> loop after \<open>k\<close> full passes through its
  body, when the run gets that far.
\<close>

fun iterations :: "'w services \<Rightarrow> config \<Rightarrow> nat \<Rightarrow> 'w driver \<Rightarrow> 'w driver option" where
  "iterations env cfg 0 st = Some st"
| "iterations env cfg (Suc k) st =
     (case py_int (trial_id st) of
        Inl e \<Rightarrow> None
      | Inr n \<Rightarrow>
          if n < max_trial_id_to_stop cfg then
            (case iteration env cfg st of
               Inl x \<Rightarrow> None
             | Inr st' \<Rightarrow> iterations env cfg k st')
          else None)"

text \<open>How the loop leaves from the head state \<open>st\<close> without a further full pass.\<close>

definition loop_exit :: "'w services \<Rightarrow> config \<Rightarrow> 'w driver \<Rightarrow> 'w result \<Rightarrow> bool" where
  "loop_exit env cfg st r =
     (case py_int (trial_id st) of
        Inl e \<Rightarrow> r = Inl (e, st)
      | Inr n \<Rightarrow>
          if n < max_trial_id_to_stop cfg then isl (iteration env cfg st) \<and> r = iteration env cfg st
          else r = Inr st)"

text \<open>Traces in which every call returned.\<close>

definition all_returned :: "(call \<times> outcome) list \<Rightarrow> bool" where
  "all_returned tr = list_all (\<lambda>x. snd x = Returned) tr"

text \<open>
  A trace in which only the last call may have raised, and then with \<open>e\<close>: every call
  before the last one returned.
\<close>

definition ends_with :: "error \<Rightarrow> (call \<times> outcome) list \<Rightarrow> bool" where
  "ends_with e tr =
     (all_returned (butlast tr) \<and>
      (tr = [] \<or> snd (last tr) = Returned \<or> snd (last tr) = Raised e))"

text \<open>
  A result whose trace is in order: after a normal step every call has returned, and
  after a raise only the last call may have raised.
\<close>

definition well_ended :: "'w result \<Rightarrow> bool" where
  "well_ended r =
     (case r of
        Inl (e, st) \<Rightarrow> ends_with e (calls st)
      | Inr st \<Rightarrow> all_returned (calls st))"

text \<open>
  The value that a trial's parameter list gives to the parameter \<open>k\<close>: the last one when
  the list names \<open>k\<close> more than once, \<open>None\<close> when it does not name it.
\<close>

definition assigned :: "string \<Rightarrow> parameter list \<Rightarrow> pyval option" where
  "assigned k ps =
     (case filter (\<lambda>p. parameter_id p = k) ps of
        [] \<Rightarrow> None
      | q # qs \<Rightarrow> Some (param_value (last (q # qs))))"

text \<open>The completions in a trace, and those that report a trial infeasible.\<close>

fun is_completion :: "call \<times> outcome \<Rightarrow> bool" where
  "is_completion (CompleteTrial nm infeasible, oc) = True"
| "is_completion (c, oc) = False"

definition completions :: "(call \<times> outcome) list \<Rightarrow> nat" where
  "completions tr = length (filter is_completion tr)"

fun reports_infeasible :: "call \<times> outcome \<Rightarrow> bool" where
  "reports_infeasible (CompleteTrial nm infeasible, oc) = infeasible"
| "reports_infeasible (c, oc) = False"

text \<open>
  The shape of the calls that the cell can issue under a configuration: a suggestion
  request carries the study, the count and the client id of the configuration, an
  evaluation its epochs and display name, a completion the flag \<^verbatim>\<open>False\<close>.
\<close>

fun issued_by :: "config \<Rightarrow> call \<times> outcome \<Rightarrow> bool" where
  "issued_by cfg (SuggestTrials parent n cid, oc) =
     (parent = STUDY_ID cfg \<and> n = suggestion_count_per_request cfg \<and> cid = client_id cfg)"
| "issued_by cfg (GetTrial nm, oc) = True"
| "issued_by cfg (CreateMetricsCall nm n l ep d, oc) =
     (ep = EPOCHS cfg \<and> d = STUDY_DISPLAY_NAME cfg)"
| "issued_by cfg (AddTrialMeasurement nm ms, oc) = True"
| "issued_by cfg (CompleteTrial nm infeasible, oc) = (\<not> infeasible)"

subsection \<open>A scripted optimizer for the scenarios\<close>

text \<open>
  A stand-in for the remote service in concrete runs: the world is the queue of batches
  still to be suggested (an exhausted optimizer answers with the empty batch),
  \<open>known\<close> are the trials that \<^verbatim>\<open>get_trial\<close> can fetch, reports and completions are
  accepted, and every training run ends as \<open>fit\<close> says.
\<close>

definition scripted :: "trial list \<Rightarrow> error + history \<Rightarrow> (trial list list) services" where
  "scripted known fit =
     \<lparr>suggest_trials = (\<lambda>parent n cid w. case w of [] \<Rightarrow> Inr ([], []) | b # bs \<Rightarrow> Inr (b, bs)),
      get_trial = (\<lambda>nm w. case find (\<lambda>t. name t = nm) known of
                             None \<Rightarrow> Inl (ServiceError ''NOT_FOUND'')
                           | Some t \<Rightarrow> Inr (t, w)),
      add_trial_measurement = (\<lambda>nm ms w. Inr w),
      complete_trial = (\<lambda>nm infeasible w. Inr w),
      model_fit = (\<lambda>bs lr dir ep w. case fit of Inl e \<Rightarrow> Inl e | Inr h \<Rightarrow> Inr (h, w))\<rparr>"

text \<open>The floats \<^verbatim>\<open>0.9\<close>, \<^verbatim>\<open>0.75\<close>, \<^verbatim>\<open>0.001\<close> and the discrete batch sizes.\<close>

definition f_0_9 :: pyval where "f_0_9 = PFloat (Finite 8106479329266893 (- 53))"
definition f_0_75 :: pyval where "f_0_75 = PFloat (Finite 3 (- 2))"
definition f_0_001 :: pyval where "f_0_001 = PFloat (Finite 4611686018427388 (- 62))"
definition f_16 :: pyval where "f_16 = PFloat (Finite 16 0)"
definition f_32 :: pyval where "f_32 = PFloat (Finite 32 0)"
definition f_64 :: pyval where "f_64 = PFloat (Finite 64 0)"

definition param :: "string \<Rightarrow> pyval \<Rightarrow> parameter" where
  "param k v = \<lparr>parameter_id = k, param_value = v\<rparr>"

definition a_trial :: "string \<Rightarrow> trial_state \<Rightarrow> parameter list \<Rightarrow> trial" where
  "a_trial seg status ps = \<lparr>name = ''studies/7/trials/'' @ seg, state = status, parameters = ps\<rparr>"

text \<open>
  A pending trial, suggested and not yet completed, is in the state \<^verbatim>\<open>ACTIVE\<close>; the
  terminal states are \<^verbatim>\<open>SUCCEEDED\<close> and \<^verbatim>\<open>INFEASIBLE\<close>.
\<close>

definition pending :: "string \<Rightarrow> trial" where
  "pending seg = a_trial seg ACTIVE [param ''batch_size'' f_32, param ''learning_rate'' f_0_001]"

definition terminal :: "trial_state \<Rightarrow> string \<Rightarrow> trial" where
  "terminal status seg =
     a_trial seg status [param ''batch_size'' f_32, param ''learning_rate'' f_0_001]"

text \<open>A training history of two epochs whose last validation accuracy is \<^verbatim>\<open>0.9\<close>.\<close>

definition history_0_9 :: history where
  "history_0_9 = [''accuracy'' \<mapsto> [f_0_75, f_0_75], ''loss'' \<mapsto> [f_0_75, f_0_75],
                  ''val_accuracy'' \<mapsto> [f_0_75, f_0_9], ''val_loss'' \<mapsto> [f_0_75, f_0_001]]"

text \<open>The constants as the notebook sets them; bucket and study names are samples.\<close>

definition notebook_config :: config where
  "notebook_config =
     \<lparr>BUCKET = ''gs://b'', STUDY_ID = ''studies/7'', STUDY_DISPLAY_NAME = ''s'',
      client_id = ''client_pcam'', suggestion_count_per_request = 1,
      max_trial_id_to_stop = 2, EPOCHS = 2\<rparr>"

section \<open>Facts about the embedding\<close>

subsection \<open>Splitting and the loop equation\<close>

lemma split_on_nonempty: "split_on c s \<noteq> []"
  by (induction s) (auto split: list.splits)

lemma py_last_split_on: "py_last (split_on c s) = Inr (last (split_on c s))"
  by (simp add: py_last_def split_on_nonempty)

lemma trial_loop_halt:
  "py_int (trial_id st) = Inr n \<Longrightarrow> max_trial_id_to_stop cfg \<le> n \<Longrightarrow>
   trial_loop env cfg st = Some (Inr st)"
  by (subst trial_loop.simps) simp

lemma trial_loop_step:
  "py_int (trial_id st) = Inr n \<Longrightarrow> n < max_trial_id_to_stop cfg \<Longrightarrow>
   iteration env cfg st = Inr st' \<Longrightarrow> trial_loop env cfg st = trial_loop env cfg st'"
  by (subst trial_loop.simps) simp

lemma trial_loop_raise:
  "py_int (trial_id st) = Inr n \<Longrightarrow> n < max_trial_id_to_stop cfg \<Longrightarrow>
   iteration env cfg st = Inl x \<Longrightarrow> trial_loop env cfg st = Some (Inl x)"
  by (subst trial_loop.simps) simp

lemma trial_loop_bad_counter:
  "py_int (trial_id st) = Inl e \<Longrightarrow> trial_loop env cfg st = Some (Inl (e, st))"
  by (subst trial_loop.simps) simp

lemma trial_loop_iterations:
  "iterations env cfg k st = Some sk \<Longrightarrow> trial_loop env cfg st = trial_loop env cfg sk"
proof (induction k arbitrary: st)
  case 0
  then show ?case by simp
next
  case (Suc k)
  then show ?case
    by (auto split: sum.splits if_splits simp: trial_loop_step)
qed

lemma trial_loop_exit:
  "loop_exit env cfg st r \<Longrightarrow> trial_loop env cfg st = Some r"
  unfolding loop_exit_def
  by (subst trial_loop.simps) (auto split: sum.splits if_splits)

lemma trial_loop_reaches_exit:
  "iterations env cfg k st = Some sk \<Longrightarrow> loop_exit env cfg sk r \<Longrightarrow>
   trial_loop env cfg st = Some r"
  by (simp add: trial_loop_iterations trial_loop_exit)

lemma trial_loop_returns:
  assumes "trial_loop env cfg st = Some r"
  shows "\<exists>k sk. iterations env cfg k st = Some sk \<and> loop_exit env cfg sk r"
proof (rule trial_loop.raw_induct
    [where P = "\<lambda>env cfg st r. \<exists>k sk. iterations env cfg k st = Some sk \<and> loop_exit env cfg sk r",
     OF _ assms])
  fix loop :: "'a services \<Rightarrow> config \<Rightarrow> 'a driver \<Rightarrow> 'a result option"
  fix env cfg st r
  assume IH: "\<And>env cfg st r. loop env cfg st = Some r \<Longrightarrow>
                \<exists>k sk. iterations env cfg k st = Some sk \<and> loop_exit env cfg sk r"
    and eq: "(case py_int (trial_id st) of
                Inl e \<Rightarrow> Some (Inl (e, st))
              | Inr n \<Rightarrow>
                  if n < max_trial_id_to_stop cfg then
                    (case iteration env cfg st of
                       Inl x \<Rightarrow> Some (Inl x)
                     | Inr st' \<Rightarrow> loop env cfg st')
                  else Some (Inr st)) = Some r"
  show "\<exists>k sk. iterations env cfg k st = Some sk \<and> loop_exit env cfg sk r"
  proof (cases "\<exists>n st'. py_int (trial_id st) = Inr n \<and> n < max_trial_id_to_stop cfg
                  \<and> iteration env cfg st = Inr st'")
    case True
    then obtain n st' where h: "py_int (trial_id st) = Inr n" "n < max_trial_id_to_stop cfg"
      "iteration env cfg st = Inr st'" by blast
    with eq have "loop env cfg st' = Some r" by simp
    from IH[OF this] obtain k sk where
      "iterations env cfg k st' = Some sk" "loop_exit env cfg sk r" by blast
    with h have "iterations env cfg (Suc k) st = Some sk" by simp
    with \<open>loop_exit env cfg sk r\<close> show ?thesis by blast
  next
    case False
    with eq have "loop_exit env cfg st r"
      unfolding loop_exit_def by (auto split: sum.splits if_splits)
    moreover have "iterations env cfg 0 st = Some st" by simp
    ultimately show ?thesis by blast
  qed
qed

lemma iterations_invariant:
  assumes "iterations env cfg k st = Some sk" and "I st"
    and "\<And>s n s'. I s \<Longrightarrow> py_int (trial_id s) = Inr n \<Longrightarrow> n < max_trial_id_to_stop cfg \<Longrightarrow>
           iteration env cfg s = Inr s' \<Longrightarrow> I s'"
  shows "I sk"
  using assms(1,2)
proof (induction k arbitrary: st)
  case 0
  then show ?case by simp
next
  case (Suc k)
  then show ?case
    by (auto split: sum.splits if_splits intro: assms(3))
qed

subsection \<open>One suggested trial\<close>

lemma assign_parameters_frame [simp]:
  "trial_id (assign_parameters ps st) = trial_id st"
  "world (assign_parameters ps st) = world st"
  "calls (assign_parameters ps st) = calls st"
  by (induction ps arbitrary: st) auto

lemma assigned_Nil [simp]: "assigned k [] = None"
  by (simp add: assigned_def)

lemma assigned_Cons:
  "assigned k (p # ps) =
     (case assigned k ps of
        None \<Rightarrow> (if parameter_id p = k then Some (param_value p) else None)
      | Some v \<Rightarrow> Some v)"
  by (auto simp: assigned_def split: list.splits)

lemma assign_parameters_batch_size:
  "batch_size (assign_parameters ps st) =
     (case assigned ''batch_size'' ps of None \<Rightarrow> batch_size st | Some v \<Rightarrow> Some v)"
  by (induction ps arbitrary: st) (auto simp: assigned_Cons split: option.splits)

lemma assign_parameters_learning_rate:
  "learning_rate (assign_parameters ps st) =
     (case assigned ''learning_rate'' ps of None \<Rightarrow> learning_rate st | Some v \<Rightarrow> Some v)"
  by (induction ps arbitrary: st) (auto simp: assigned_Cons split: option.splits)

lemma assign_parameters_eq:
  "assign_parameters ps st =
     st\<lparr>batch_size := (case assigned ''batch_size'' ps of None \<Rightarrow> batch_size st | Some v \<Rightarrow> Some v),
        learning_rate := (case assigned ''learning_rate'' ps of None \<Rightarrow> learning_rate st | Some v \<Rightarrow> Some v)\<rparr>"
  by (induction ps arbitrary: st) (auto simp: assigned_Cons split: option.splits)

lemma state_in_strings [simp]: "state_in member strs = False"
  by (simp add: state_in_def state_eq_def list_ex_iff)

lemma process_trial_get_raises:
  "get_trial env (name t) (world st) = Inl e \<Longrightarrow>
   process_trial env cfg t st =
     Inl (e, st\<lparr>trial_id := PStr (last (split_on CHR ''/'' (name t))),
               calls := calls st @ [(GetTrial (name t), Raised e)]\<rparr>)"
  by (simp add: process_trial_def py_last_split_on log_call_def)

lemma process_trial_unbound:
  assumes "get_trial env (name t) (world st) = Inr (tr, w')"
    and "batch_size (assign_parameters (parameters tr) st) = None
         \<or> learning_rate (assign_parameters (parameters tr) st) = None"
  shows "process_trial env cfg t st =
     Inl (NameError, (assign_parameters (parameters tr) st)
            \<lparr>trial_id := PStr (last (split_on CHR ''/'' (name t))), world := w',
             calls := calls st @ [(GetTrial (name t), Returned)]\<rparr>)"
  using assms
  by (auto simp add: process_trial_def py_last_split_on log_call_def Let_def
      assign_parameters_batch_size assign_parameters_learning_rate assign_parameters_eq
      split: option.splits)

lemma process_trial_bad_batch_size:
  assumes "get_trial env (name t) (world st) = Inr (tr, w')"
    and "batch_size (assign_parameters (parameters tr) st) = Some b"
    and "learning_rate (assign_parameters (parameters tr) st) = Some l"
    and "py_int b = Inl e"
  shows "process_trial env cfg t st =
     Inl (e, st\<lparr>trial_id := PStr (last (split_on CHR ''/'' (name t))), batch_size := Some b,
                learning_rate := Some l, world := w',
                calls := calls st @ [(GetTrial (name t), Returned)]\<rparr>)"
  using assms
  by (auto simp add: process_trial_def py_last_split_on log_call_def Let_def
      assign_parameters_batch_size assign_parameters_learning_rate assign_parameters_eq
      split: option.splits)

lemma process_trial_live:
  assumes "get_trial env (name t) (world st) = Inr (tr, w')"
    and "batch_size (assign_parameters (parameters tr) st) = Some b"
    and "learning_rate (assign_parameters (parameters tr) st) = Some l"
    and "py_int b = Inr n"
  shows "process_trial env cfg t st =
     (let nm = name t;
          s3 = st\<lparr>trial_id := PStr (last (split_on CHR ''/'' nm)), batch_size := Some b,
                  learning_rate := Some l\<rparr>;
          c4 = CreateMetricsCall nm n l (EPOCHS cfg) (STUDY_DISPLAY_NAME cfg);
          g = (GetTrial nm, Returned)
      in case CreateMetrics env cfg nm n l (EPOCHS cfg) (STUDY_DISPLAY_NAME cfg) w' of
           Inl e \<Rightarrow> Inl (e, s3\<lparr>world := w', calls := calls st @ [g, (c4, Raised e)]\<rparr>)
         | Inr (ms, w4) \<Rightarrow>
             (case add_trial_measurement env nm ms w4 of
                Inl e \<Rightarrow> Inl (e, s3\<lparr>world := w4, calls := calls st @
                           [g, (c4, Returned), (AddTrialMeasurement nm ms, Raised e)]\<rparr>)
              | Inr w5 \<Rightarrow>
                  (case complete_trial env nm False w5 of
                     Inl e \<Rightarrow> Inl (e, s3\<lparr>world := w5, calls := calls st @
                                [g, (c4, Returned), (AddTrialMeasurement nm ms, Returned),
                                 (CompleteTrial nm False, Raised e)]\<rparr>)
                   | Inr w6 \<Rightarrow> Inr (s3\<lparr>world := w6, calls := calls st @
                                [g, (c4, Returned), (AddTrialMeasurement nm ms, Returned),
                                 (CompleteTrial nm False, Returned)]\<rparr>))))"
proof -
  let ?cm = "CreateMetrics env cfg (name t) n l (EPOCHS cfg) (STUDY_DISPLAY_NAME cfg) w'"
  note defs = process_trial_def py_last_split_on log_call_def Let_def
    assign_parameters_batch_size assign_parameters_learning_rate assign_parameters_eq
  show ?thesis
  proof (cases ?cm)
    case (Inl e)
    with assms show ?thesis by (simp add: defs split: option.splits)
  next
    case (Inr p)
    obtain ms w4 where p: "p = (ms, w4)" by (cases p)
    show ?thesis
    proof (cases "add_trial_measurement env (name t) ms w4")
      case (Inl e)
      with assms Inr p show ?thesis by (simp add: defs split: option.splits)
    next
      case add: (Inr w5)
      show ?thesis
      proof (cases "complete_trial env (name t) False w5")
        case (Inl e)
        with assms Inr p add show ?thesis by (simp add: defs split: option.splits)
      next
        case (Inr w6)
        with assms \<open>?cm = Inr p\<close> p add show ?thesis by (simp add: defs split: option.splits)
      qed
    qed
  qed
qed

lemma process_trial_cases [case_names get_raises unbound bad_batch_size live]:
  obtains
    e where "get_trial env (name t) (world st) = Inl e"
  | tr w' where "get_trial env (name t) (world st) = Inr (tr, w')"
      "batch_size (assign_parameters (parameters tr) st) = None
         \<or> learning_rate (assign_parameters (parameters tr) st) = None"
  | tr w' b l e where "get_trial env (name t) (world st) = Inr (tr, w')"
      "batch_size (assign_parameters (parameters tr) st) = Some b"
      "learning_rate (assign_parameters (parameters tr) st) = Some l"
      "py_int b = Inl e"
  | tr w' b l n where "get_trial env (name t) (world st) = Inr (tr, w')"
      "batch_size (assign_parameters (parameters tr) st) = Some b"
      "learning_rate (assign_parameters (parameters tr) st) = Some l"
      "py_int b = Inr n"
proof (cases "get_trial env (name t) (world st)")
  case (Inl e)
  then show ?thesis using that(1) by blast
next
  case (Inr p)
  obtain tr w' where p: "p = (tr, w')" by (cases p)
  show ?thesis
  proof (cases "batch_size (assign_parameters (parameters tr) st)")
    case None
    then show ?thesis using that(2) Inr p by blast
  next
    case b: (Some b)
    show ?thesis
    proof (cases "learning_rate (assign_parameters (parameters tr) st)")
      case None
      then show ?thesis using that(2) Inr p by blast
    next
      case l: (Some l)
      show ?thesis
      proof (cases "py_int b")
        case (Inl e)
        then show ?thesis using that(3) Inr p b l by blast
      next
        case (Inr n)
        then show ?thesis using that(4) \<open>get_trial env (name t) (world st) = Inr p\<close> p b l
          by blast
      qed
    qed
  qed
qed

lemma process_trial_extends:
  "calls (state_of (process_trial env cfg t st))
     = calls st @ new_calls st (process_trial env cfg t st)"
  by (cases rule: process_trial_cases[of env t st])
     (auto simp: process_trial_get_raises process_trial_unbound
        process_trial_bad_batch_size process_trial_live new_calls_def Let_def
        split: sum.splits)

lemma CreateMetrics_returns:
  assumes "model_fit env n l (BUCKET cfg @ ''/logs/pcam/'' @ d @ ''/'' @ last (split_on CHR ''/'' nm))
             ep w = Inr (h, w')"
    and "h ''val_accuracy'' = Some accs" "accs \<noteq> []"
    and "h ''val_loss'' = Some losses" "losses \<noteq> []"
  shows "CreateMetrics env cfg nm n l ep d w
           = Inr ([\<lparr>metric_id = ''accuracy'', metric_value = last accs\<rparr>], w')"
  using assms
  by (simp add: CreateMetrics_def run_model_training_def py_last_def split_on_nonempty)



subsection \<open>The scripted optimizer\<close>

lemma scripted_simps [simp]:
  "suggest_trials (scripted known fit) parent k cid [] = Inr ([], [])"
  "suggest_trials (scripted known fit) parent k cid (b # bs) = Inr (b, bs)"
  "get_trial (scripted known fit) nm w =
     (case find (\<lambda>t. name t = nm) known of
        None \<Rightarrow> Inl (ServiceError ''NOT_FOUND'') | Some t \<Rightarrow> Inr (t, w))"
  "add_trial_measurement (scripted known fit) nm ms w = Inr w"
  "complete_trial (scripted known fit) nm infeasible w = Inr w"
  "model_fit (scripted known fit) bsz lr dir ep w =
     (case fit of Inl e \<Rightarrow> Inl e | Inr h \<Rightarrow> Inr (h, w))"
  by (simp_all add: scripted_def)

lemma pending_simps [simp]:
  "name (pending seg) = ''studies/7/trials/'' @ seg"
  "state (pending seg) = ACTIVE"
  "parameters (pending seg) = [param ''batch_size'' f_32, param ''learning_rate'' f_0_001]"
  by (simp_all add: pending_def a_trial_def)

lemma terminal_simps [simp]:
  "name (terminal status seg) = ''studies/7/trials/'' @ seg"
  "state (terminal status seg) = status"
  "parameters (terminal status seg) = [param ''batch_size'' f_32, param ''learning_rate'' f_0_001]"
  by (simp_all add: terminal_def a_trial_def)

lemma param_simps [simp]:
  "parameter_id (param k v) = k" "param_value (param k v) = v"
  by (simp_all add: param_def)

lemma initial_simps [simp]:
  "trial_id (initial w) = PInt 0" "batch_size (initial w) = Some (PInt 32)"
  "learning_rate (initial w) = None" "world (initial w) = w" "calls (initial w) = []"
  by (simp_all add: initial_def)

lemma notebook_config_simps [simp]:
  "BUCKET notebook_config = ''gs://b''" "STUDY_ID notebook_config = ''studies/7''"
  "STUDY_DISPLAY_NAME notebook_config = ''s''" "client_id notebook_config = ''client_pcam''"
  "suggestion_count_per_request notebook_config = 1" "max_trial_id_to_stop notebook_config = 2"
  "EPOCHS notebook_config = 2"
  by (simp_all add: notebook_config_def)


subsection \<open>Traces, passes and runs\<close>

lemma trunc_float_towards_zero:
  "(0 \<le> e \<longrightarrow> trunc_float m e = m * 2 ^ nat e)
   \<and> (e < 0 \<longrightarrow> \<bar>trunc_float m e\<bar> = \<bar>m\<bar> div 2 ^ nat (- e)
                 \<and> (0 \<le> m \<longrightarrow> 0 \<le> trunc_float m e) \<and> (m \<le> 0 \<longrightarrow> trunc_float m e \<le> 0))"
  by (auto simp: pos_imp_zdiv_nonneg_iff)

lemma driver_all_updated:
  "(st :: 'w driver)\<lparr>trial_id := a, batch_size := b, learning_rate := c, world := d, calls := e\<rparr>
     = \<lparr>trial_id = a, batch_size = b, learning_rate = c, world = d, calls = e\<rparr>"
  by (cases st) simp

lemma process_trial_new_calls_live:
  assumes "get_trial env (name t) (world st) = Inr (tr, w')"
    and "batch_size (assign_parameters (parameters tr) st) = Some b"
    and "learning_rate (assign_parameters (parameters tr) st) = Some l"
    and "py_int b = Inr n"
  shows "new_calls st (process_trial env cfg t st) =
     (GetTrial (name t), Returned) #
     (case CreateMetrics env cfg (name t) n l (EPOCHS cfg) (STUDY_DISPLAY_NAME cfg) w' of
        Inl e \<Rightarrow> [(CreateMetricsCall (name t) n l (EPOCHS cfg) (STUDY_DISPLAY_NAME cfg), Raised e)]
      | Inr (ms, w4) \<Rightarrow>
          (CreateMetricsCall (name t) n l (EPOCHS cfg) (STUDY_DISPLAY_NAME cfg), Returned) #
          (case add_trial_measurement env (name t) ms w4 of
             Inl e \<Rightarrow> [(AddTrialMeasurement (name t) ms, Raised e)]
           | Inr w5 \<Rightarrow>
               [(AddTrialMeasurement (name t) ms, Returned),
                (CompleteTrial (name t) False,
                   (case complete_trial env (name t) False w5 of
                      Inl e \<Rightarrow> Raised e
                    | Inr w6 \<Rightarrow> Returned))]))"
  by (simp add: process_trial_live[OF assms] new_calls_def Let_def split: sum.splits prod.splits)

lemma process_trial_new_calls_own:
  assumes "get_trial env (name t) (world st) = Inr (tr, w')"
    and "assigned ''batch_size'' (parameters tr) = Some b"
    and "assigned ''learning_rate'' (parameters tr) = Some l"
    and "py_int b = Inr n"
  shows "new_calls st (process_trial env cfg t st) =
     (GetTrial (name t), Returned) #
     (case CreateMetrics env cfg (name t) n l (EPOCHS cfg) (STUDY_DISPLAY_NAME cfg) w' of
        Inl e \<Rightarrow> [(CreateMetricsCall (name t) n l (EPOCHS cfg) (STUDY_DISPLAY_NAME cfg), Raised e)]
      | Inr (ms, w4) \<Rightarrow>
          (CreateMetricsCall (name t) n l (EPOCHS cfg) (STUDY_DISPLAY_NAME cfg), Returned) #
          (case add_trial_measurement env (name t) ms w4 of
             Inl e \<Rightarrow> [(AddTrialMeasurement (name t) ms, Raised e)]
           | Inr w5 \<Rightarrow>
               [(AddTrialMeasurement (name t) ms, Returned),
                (CompleteTrial (name t) False,
                   (case complete_trial env (name t) False w5 of
                      Inl e \<Rightarrow> Raised e
                    | Inr w6 \<Rightarrow> Returned))]))"
proof (rule process_trial_new_calls_live[OF assms(1) _ _ assms(4)])
  show "batch_size (assign_parameters (parameters tr) st) = Some b"
    using assms(2) by (simp add: assign_parameters_batch_size)
  show "learning_rate (assign_parameters (parameters tr) st) = Some l"
    using assms(3) by (simp add: assign_parameters_learning_rate)
qed

lemma new_calls_append:
  "calls (state_of r) = calls st @ new \<Longrightarrow> new_calls st r = new"
  by (simp add: new_calls_def)

lemma extendsI:
  "calls (state_of r) = calls st @ new \<Longrightarrow> calls (state_of r) = calls st @ new_calls st r"
  by (simp add: new_calls_def)

lemma extends_trans:
  assumes "calls s1 = calls s0 @ new_calls s0 (Inr s1)"
    and "calls (state_of r) = calls s1 @ new_calls s1 r"
  shows "calls (state_of r) = calls s0 @ new_calls s0 r"
    and "new_calls s0 r = new_calls s0 (Inr s1) @ new_calls s1 r"
proof -
  have "calls (state_of r) = calls s0 @ (new_calls s0 (Inr s1) @ new_calls s1 r)"
    using assms by (metis append.assoc)
  then show "new_calls s0 r = new_calls s0 (Inr s1) @ new_calls s1 r"
    by (rule new_calls_append)
  with \<open>calls (state_of r) = calls s0 @ (new_calls s0 (Inr s1) @ new_calls s1 r)\<close>
  show "calls (state_of r) = calls s0 @ new_calls s0 r" by simp
qed

lemma for_trials_extends:
  "calls (state_of (for_trials env cfg ts st))
     = calls st @ new_calls st (for_trials env cfg ts st)"
proof (induction ts arbitrary: st)
  case Nil
  show ?case by (simp add: new_calls_def)
next
  case (Cons t ts)
  show ?case
  proof (cases "process_trial env cfg t st")
    case (Inl x)
    with process_trial_extends[of env cfg t st] show ?thesis by simp
  next
    case (Inr s1)
    with process_trial_extends[of env cfg t st]
    have "calls s1 = calls st @ new_calls st (Inr s1)" by simp
    from extends_trans(1)[OF this Cons.IH[of s1]] Inr show ?thesis by simp
  qed
qed

lemma for_trials_new_calls_Cons:
  "process_trial env cfg t st = Inr s1 \<Longrightarrow>
   new_calls st (for_trials env cfg (t # ts) st)
     = new_calls st (process_trial env cfg t st) @ new_calls s1 (for_trials env cfg ts s1)"
  using extends_trans(2)[of s1 st "for_trials env cfg ts s1"]
    process_trial_extends[of env cfg t st] for_trials_extends[of env cfg ts s1]
  by simp

lemma iteration_suggest_raises:
  "suggest_trials env (STUDY_ID cfg) (suggestion_count_per_request cfg) (client_id cfg) (world st)
     = Inl e \<Longrightarrow>
   iteration env cfg st =
     Inl (e, st\<lparr>calls := calls st @
       [(SuggestTrials (STUDY_ID cfg) (suggestion_count_per_request cfg) (client_id cfg),
         Raised e)]\<rparr>)"
  by (simp add: iteration_def log_call_def)

lemma iteration_suggest_returns:
  "suggest_trials env (STUDY_ID cfg) (suggestion_count_per_request cfg) (client_id cfg) (world st)
     = Inr (ts, w') \<Longrightarrow>
   iteration env cfg st =
     for_trials env cfg ts (st\<lparr>world := w', calls := calls st @
       [(SuggestTrials (STUDY_ID cfg) (suggestion_count_per_request cfg) (client_id cfg),
         Returned)]\<rparr>)"
  by (simp add: iteration_def log_call_def)

lemma iteration_new_calls:
  "new_calls st (iteration env cfg st) =
     (case suggest_trials env (STUDY_ID cfg) (suggestion_count_per_request cfg) (client_id cfg)
             (world st) of
        Inl e \<Rightarrow>
          [(SuggestTrials (STUDY_ID cfg) (suggestion_count_per_request cfg) (client_id cfg),
            Raised e)]
      | Inr (ts, w') \<Rightarrow>
          (SuggestTrials (STUDY_ID cfg) (suggestion_count_per_request cfg) (client_id cfg),
            Returned) #
          new_calls (st\<lparr>world := w', calls := calls st @
              [(SuggestTrials (STUDY_ID cfg) (suggestion_count_per_request cfg) (client_id cfg),
                Returned)]\<rparr>)
            (for_trials env cfg ts (st\<lparr>world := w', calls := calls st @
              [(SuggestTrials (STUDY_ID cfg) (suggestion_count_per_request cfg) (client_id cfg),
                Returned)]\<rparr>)))"
proof (cases "suggest_trials env (STUDY_ID cfg) (suggestion_count_per_request cfg)
                (client_id cfg) (world st)")
  case (Inl e)
  then show ?thesis by (simp add: iteration_suggest_raises new_calls_def)
next
  case (Inr p)
  obtain ts w' where p: "p = (ts, w')" by (cases p)
  let ?s1 = "st\<lparr>world := w', calls := calls st @
       [(SuggestTrials (STUDY_ID cfg) (suggestion_count_per_request cfg) (client_id cfg),
         Returned)]\<rparr>"
  have "calls (state_of (for_trials env cfg ts ?s1))
          = calls st @ ((SuggestTrials (STUDY_ID cfg) (suggestion_count_per_request cfg)
               (client_id cfg), Returned) # new_calls ?s1 (for_trials env cfg ts ?s1))"
    using for_trials_extends[of env cfg ts ?s1] by simp
  from new_calls_append[OF this] Inr p show ?thesis
    by (simp add: iteration_suggest_returns)
qed

lemma iteration_extends:
  "calls (state_of (iteration env cfg st)) = calls st @ new_calls st (iteration env cfg st)"
proof (cases "suggest_trials env (STUDY_ID cfg) (suggestion_count_per_request cfg)
                (client_id cfg) (world st)")
  case (Inl e)
  then show ?thesis by (simp add: iteration_suggest_raises new_calls_def)
next
  case (Inr p)
  obtain ts w' where p: "p = (ts, w')" by (cases p)
  let ?s1 = "st\<lparr>world := w', calls := calls st @
       [(SuggestTrials (STUDY_ID cfg) (suggestion_count_per_request cfg) (client_id cfg),
         Returned)]\<rparr>"
  have "calls (state_of (for_trials env cfg ts ?s1))
          = calls st @ ((SuggestTrials (STUDY_ID cfg) (suggestion_count_per_request cfg)
               (client_id cfg), Returned) # new_calls ?s1 (for_trials env cfg ts ?s1))"
    using for_trials_extends[of env cfg ts ?s1] by simp
  then have "calls (state_of (iteration env cfg st))
          = calls st @ ((SuggestTrials (STUDY_ID cfg) (suggestion_count_per_request cfg)
               (client_id cfg), Returned) # new_calls ?s1 (for_trials env cfg ts ?s1))"
    using Inr p by (simp add: iteration_suggest_returns)
  then show ?thesis by (rule extendsI)
qed

lemma iterations_extends:
  "iterations env cfg k st = Some sk \<Longrightarrow> calls sk = calls st @ new_calls st (Inr sk)"
proof (induction k arbitrary: st)
  case 0
  then show ?case by (simp add: new_calls_def)
next
  case (Suc k)
  from Suc.prems obtain s1 where it: "iteration env cfg st = Inr s1"
    and rest: "iterations env cfg k s1 = Some sk"
    by (auto split: sum.splits if_splits)
  from iteration_extends[of env cfg st] it
  have "calls s1 = calls st @ new_calls st (Inr s1)" by simp
  from extends_trans(1)[OF this, of "Inr sk"] Suc.IH[OF rest] show ?case by simp
qed

lemma trial_loop_extends:
  assumes "trial_loop env cfg st = Some r"
  shows "calls (state_of r) = calls st @ new_calls st r"
proof -
  from trial_loop_returns[OF assms] obtain k sk where
    k: "iterations env cfg k st = Some sk" and ex: "loop_exit env cfg sk r" by blast
  have 1: "calls sk = calls st @ new_calls st (Inr sk)" by (rule iterations_extends[OF k])
  have 2: "calls (state_of r) = calls sk @ new_calls sk r"
    using ex iteration_extends[of env cfg sk]
    by (auto simp: loop_exit_def new_calls_def split: sum.splits if_splits)
  from extends_trans(1)[OF 1 2] show ?thesis .
qed

lemma process_trial_issued:
  "list_all (issued_by cfg) (new_calls st (process_trial env cfg t st))"
  by (cases rule: process_trial_cases[of env t st])
     (simp_all add: process_trial_get_raises process_trial_unbound
        process_trial_bad_batch_size process_trial_live new_calls_def Let_def
        split: sum.splits prod.splits)

lemma for_trials_issued:
  "list_all (issued_by cfg) (new_calls st (for_trials env cfg ts st))"
proof (induction ts arbitrary: st)
  case Nil
  show ?case by (simp add: new_calls_def)
next
  case (Cons t ts)
  show ?case
  proof (cases "process_trial env cfg t st")
    case (Inl x)
    with process_trial_issued[where st = st and env = env and cfg = cfg and t = t] show ?thesis by simp
  next
    case (Inr s1)
    from for_trials_new_calls_Cons[OF Inr, of ts] process_trial_issued[where st = st and env = env and cfg = cfg and t = t]
      Cons.IH[of s1]
    show ?thesis by simp
  qed
qed

lemma iteration_issued:
  "list_all (issued_by cfg) (new_calls st (iteration env cfg st))"
  by (simp add: iteration_new_calls for_trials_issued split: sum.splits prod.splits)

lemma iterations_new_calls_Suc:
  assumes "iteration env cfg st = Inr s1" "iterations env cfg k s1 = Some sk"
  shows "new_calls st (Inr sk) = new_calls st (iteration env cfg st) @ new_calls s1 (Inr sk)"
proof -
  from iteration_extends[of env cfg st] assms(1)
  have "calls s1 = calls st @ new_calls st (Inr s1)" by simp
  from extends_trans(2)[OF this, of "Inr sk"] iterations_extends[OF assms(2)] assms(1)
  show ?thesis by simp
qed

lemma iterations_issued:
  "iterations env cfg k st = Some sk \<Longrightarrow> list_all (issued_by cfg) (new_calls st (Inr sk))"
proof (induction k arbitrary: st)
  case 0
  then show ?case by (simp add: new_calls_def)
next
  case (Suc k)
  from Suc.prems obtain s1 where it: "iteration env cfg st = Inr s1"
    and rest: "iterations env cfg k s1 = Some sk"
    by (auto split: sum.splits if_splits)
  from iterations_new_calls_Suc[OF it rest] iteration_issued[where st = st and env = env and cfg = cfg] Suc.IH[OF rest]
  show ?case by simp
qed

lemma loop_exit_new_calls:
  "loop_exit env cfg sk r \<Longrightarrow>
   new_calls sk r = [] \<or> new_calls sk r = new_calls sk (iteration env cfg sk)"
  by (auto simp: loop_exit_def new_calls_def split: sum.splits if_splits)

lemma trial_loop_new_calls:
  assumes "trial_loop env cfg st = Some r"
  shows "\<exists>k sk. iterations env cfg k st = Some sk \<and> loop_exit env cfg sk r
           \<and> new_calls st r = new_calls st (Inr sk) @ new_calls sk r"
proof -
  from trial_loop_returns[OF assms] obtain k sk where
    k: "iterations env cfg k st = Some sk" and ex: "loop_exit env cfg sk r" by blast
  have 1: "calls sk = calls st @ new_calls st (Inr sk)" by (rule iterations_extends[OF k])
  have 2: "calls (state_of r) = calls sk @ new_calls sk r"
    using ex iteration_extends[of env cfg sk]
    by (auto simp: loop_exit_def new_calls_def split: sum.splits if_splits)
  from extends_trans(2)[OF 1 2] k ex show ?thesis by blast
qed

lemma trial_loop_issued:
  assumes "trial_loop env cfg st = Some r"
  shows "list_all (issued_by cfg) (new_calls st r)"
proof -
  from trial_loop_new_calls[OF assms] obtain k sk where
    k: "iterations env cfg k st = Some sk" and ex: "loop_exit env cfg sk r"
    and n: "new_calls st r = new_calls st (Inr sk) @ new_calls sk r" by blast
  from loop_exit_new_calls[OF ex] iteration_issued[where st = sk and env = env and cfg = cfg]
  have "list_all (issued_by cfg) (new_calls sk r)" by auto
  with iterations_issued[OF k] n show ?thesis by simp
qed

lemma suggestions_carry_the_client_id:
  assumes "trial_loop env cfg st = Some r"
    and "(SuggestTrials parent n cid, oc) \<in> set (new_calls st r)"
  shows "cid = client_id cfg"
  using trial_loop_issued[OF assms(1)] assms(2) by (auto simp: list_all_iff)

lemma issued_by_feasible:
  "list_all (issued_by cfg) tr \<Longrightarrow> \<not> list_ex reports_infeasible tr"
proof (induction tr)
  case Nil
  show ?case by simp
next
  case (Cons x tr)
  obtain c oc where x: "x = (c, oc)" by (cases x)
  with Cons show ?case by (cases c) simp_all
qed

lemma iteration_feasible:
  "\<not> list_ex reports_infeasible (new_calls st (iteration env cfg st))"
  by (rule issued_by_feasible[OF iteration_issued])

lemma trial_loop_feasible:
  "trial_loop env cfg st = Some r \<Longrightarrow> \<not> list_ex reports_infeasible (new_calls st r)"
  by (rule issued_by_feasible[OF trial_loop_issued])

lemma all_returned_append [simp]:
  "all_returned (xs @ ys) = (all_returned xs \<and> all_returned ys)"
  by (simp add: all_returned_def)

lemma all_returned_simps [simp]:
  "all_returned []" "all_returned ((c, oc) # xs) = (oc = Returned \<and> all_returned xs)"
  by (simp_all add: all_returned_def)

lemma ends_with_append [simp]:
  "ys \<noteq> [] \<Longrightarrow> ends_with e (xs @ ys) = (all_returned xs \<and> ends_with e ys)"
  by (simp add: ends_with_def butlast_append)

lemma ends_with_simps [simp]:
  "ends_with e [(c, oc)] = (oc = Returned \<or> oc = Raised e)"
  "ends_with e ((c, oc) # y # ys) = (oc = Returned \<and> ends_with e (y # ys))"
  by (simp_all add: ends_with_def)

lemma all_returned_ends_with: "all_returned xs \<Longrightarrow> ends_with e xs"
  by (cases xs rule: rev_cases) (auto simp: ends_with_def)

lemma process_trial_well_ended:
  "all_returned (calls st) \<Longrightarrow> well_ended (process_trial env cfg t st)"
  by (cases rule: process_trial_cases[of env t st])
     (simp_all add: process_trial_get_raises process_trial_unbound
        process_trial_bad_batch_size process_trial_live well_ended_def Let_def
        all_returned_ends_with
        split: sum.splits prod.splits)

lemma for_trials_well_ended:
  "all_returned (calls st) \<Longrightarrow> well_ended (for_trials env cfg ts st)"
proof (induction ts arbitrary: st)
  case Nil
  then show ?case by (simp add: well_ended_def)
next
  case (Cons t ts)
  from process_trial_well_ended[OF Cons.prems, of env cfg t] Cons.IH
  show ?case by (cases "process_trial env cfg t st") (simp_all add: well_ended_def)
qed

lemma iteration_well_ended:
  "all_returned (calls st) \<Longrightarrow> well_ended (iteration env cfg st)"
proof (cases "suggest_trials env (STUDY_ID cfg) (suggestion_count_per_request cfg)
                (client_id cfg) (world st)")
  case (Inl e)
  assume "all_returned (calls st)"
  with Inl show ?thesis by (simp add: iteration_suggest_raises well_ended_def)
next
  case (Inr p)
  assume "all_returned (calls st)"
  moreover obtain ts w' where p: "p = (ts, w')" by (cases p)
  ultimately show ?thesis
    using Inr by (simp add: iteration_suggest_returns for_trials_well_ended)
qed

lemma iterations_all_returned:
  "iterations env cfg k st = Some sk \<Longrightarrow> all_returned (calls st) \<Longrightarrow> all_returned (calls sk)"
proof (induction k arbitrary: st)
  case 0
  then show ?case by simp
next
  case (Suc k)
  from Suc.prems(1) obtain s1 where it: "iteration env cfg st = Inr s1"
    and rest: "iterations env cfg k s1 = Some sk"
    by (auto split: sum.splits if_splits)
  from iteration_well_ended[OF Suc.prems(2), of env cfg] it
  have "all_returned (calls s1)" by (simp add: well_ended_def)
  from Suc.IH[OF rest this] show ?case .
qed

lemma ends_with_raised_last:
  assumes "ends_with e tr" "(c, Raised e') \<in> set tr"
  shows "e' = e \<and> last tr = (c, Raised e)"
proof (cases tr rule: rev_cases)
  case Nil
  with assms show ?thesis by simp
next
  case (snoc xs x)
  with assms have "all_returned xs" by (simp add: ends_with_def)
  then have "(c, Raised e') \<notin> set xs" by (auto simp: all_returned_def list_all_iff)
  with assms snoc have "x = (c, Raised e')" by simp
  with assms snoc show ?thesis by (simp add: ends_with_def)
qed

lemmas run_defs = iteration_def process_trial_def py_last_def log_call_def CreateMetrics_def
  run_model_training_def history_0_9_def int_of_str_def strip_def is_space_def digit_val_def
  f_32_def f_16_def f_64_def a_trial_def

lemma iterations_snoc:
  "iterations env cfg k st = Some sk \<Longrightarrow> py_int (trial_id sk) = Inr n \<Longrightarrow>
   n < max_trial_id_to_stop cfg \<Longrightarrow> iteration env cfg sk = Inr s' \<Longrightarrow>
   iterations env cfg (Suc k) st = Some s'"
proof (induction k arbitrary: st)
  case 0
  then show ?case by simp
next
  case (Suc k)
  from Suc.prems(1) obtain m s1 where h: "py_int (trial_id st) = Inr m"
    "m < max_trial_id_to_stop cfg" "iteration env cfg st = Inr s1"
    and rest: "iterations env cfg k s1 = Some sk"
    by (auto split: sum.splits if_splits)
  from Suc.IH[OF rest Suc.prems(2-4)] h show ?case by simp
qed

lemma process_trial_trial_id:
  "process_trial env cfg t st = Inr s' \<Longrightarrow> trial_id s' = PStr (last (split_on CHR ''/'' (name t)))"
  by (cases rule: process_trial_cases[of env t st])
     (auto simp: process_trial_get_raises process_trial_unbound
        process_trial_bad_batch_size process_trial_live Let_def
        split: sum.splits prod.splits)

lemma for_trials_trial_id:
  "ts \<noteq> [] \<Longrightarrow> for_trials env cfg ts st = Inr s' \<Longrightarrow>
   trial_id s' = PStr (last (split_on CHR ''/'' (name (last ts))))"
proof (induction ts arbitrary: st)
  case Nil
  then show ?case by simp
next
  case (Cons t ts)
  from Cons.prems(2) obtain s1 where p: "process_trial env cfg t st = Inr s1"
    and rest: "for_trials env cfg ts s1 = Inr s'"
    by (auto split: sum.splits)
  show ?case
  proof (cases "ts = []")
    case True
    with rest p process_trial_trial_id[OF p] show ?thesis by simp
  next
    case False
    with Cons.IH[OF False rest] show ?thesis by simp
  qed
qed

lemma completions_append [simp]:
  "completions (xs @ ys) = completions xs + completions ys"
  by (simp add: completions_def)

lemma counted_iterations:
  assumes P0: "P 0 st"
    and step: "\<And>k s. P k s \<Longrightarrow> int k < max_trial_id_to_stop cfg \<Longrightarrow>
       \<exists>s'. iteration env cfg s = Inr s' \<and> P (Suc k) s' \<and> completions (new_calls s (Inr s')) = 1"
    and counter: "\<And>k s. P k s \<Longrightarrow> py_int (trial_id s) = Inr (int k)"
  shows "int j \<le> max_trial_id_to_stop cfg \<Longrightarrow>
         \<exists>sj. iterations env cfg j st = Some sj \<and> P j sj \<and> completions (new_calls st (Inr sj)) = j"
proof (induction j)
  case 0
  with P0 show ?case by (simp add: new_calls_def completions_def)
next
  case (Suc j)
  then obtain sj where it: "iterations env cfg j st = Some sj" and Pj: "P j sj"
    and cj: "completions (new_calls st (Inr sj)) = j" by auto
  from Suc.prems have lt: "int j < max_trial_id_to_stop cfg" by simp
  from step[OF Pj lt] obtain s' where s': "iteration env cfg sj = Inr s'" "P (Suc j) s'"
    "completions (new_calls sj (Inr s')) = 1" by blast
  have it': "iterations env cfg (Suc j) st = Some s'"
    by (rule iterations_snoc[OF it counter[OF Pj] lt s'(1)])
  have "calls sj = calls st @ new_calls st (Inr sj)" by (rule iterations_extends[OF it])
  moreover have "calls (state_of (Inr s' :: 'a result)) = calls sj @ new_calls sj (Inr s')"
    using iteration_extends[of env cfg sj] s'(1) by simp
  ultimately have "new_calls st (Inr s') = new_calls st (Inr sj) @ new_calls sj (Inr s')"
    by (rule extends_trans(2))
  with cj s'(3) have "completions (new_calls st (Inr s')) = Suc j" by simp
  with it' s'(2) show ?case by blast
qed

lemma trial_loop_halted_counter:
  assumes "trial_loop env cfg st = Some (Inr st')"
  shows "\<exists>m. py_int (trial_id st') = Inr m \<and> max_trial_id_to_stop cfg \<le> m"
proof -
  from trial_loop_returns[OF assms] obtain k sk where
    "iterations env cfg k st = Some sk" and ex: "loop_exit env cfg sk (Inr st')" by blast
  from ex show ?thesis
    unfolding loop_exit_def
    by (cases "py_int (trial_id sk)"; cases "iteration env cfg sk") (auto split: if_splits)
qed

lemma run_failing_evaluation:
  "trial_loop (scripted [pending ''1''] (Inl (ServiceError ''ResourceExhaustedError'')))
     notebook_config (initial [[pending ''1'']]) =
   Some (Inl (ServiceError ''ResourceExhaustedError'',
     \<lparr>trial_id = PStr ''1'', batch_size = Some f_32, learning_rate = Some f_0_001,
      world = [],
      calls = [(SuggestTrials ''studies/7'' 1 ''client_pcam'', Returned),
               (GetTrial ''studies/7/trials/1'', Returned),
               (CreateMetricsCall ''studies/7/trials/1'' 32 f_0_001 2 ''s'',
                Raised (ServiceError ''ResourceExhaustedError''))]\<rparr>))"
  by (simp add: trial_loop.simps run_defs initial_def)

lemma pass_of_numbered_trial:
  assumes sg: "suggest_trials env (STUDY_ID cfg) (suggestion_count_per_request cfg)
                 (client_id cfg) (world s) = Inr ([t], w1)"
    and gt: "get_trial env (name t) w1 = Inr (tr, w2)"
    and bs: "assigned ''batch_size'' (parameters tr) = Some b"
    and n: "py_int b = Inr n"
    and lr: "assigned ''learning_rate'' (parameters tr) = Some l"
    and fit: "model_fit env n l
                (BUCKET cfg @ ''/logs/pcam/'' @ STUDY_DISPLAY_NAME cfg @ ''/''
                   @ last (split_on CHR ''/'' (name t))) (EPOCHS cfg) w2 = Inr (h, w3)"
    and acc: "h ''val_accuracy'' = Some accs" "accs \<noteq> []"
    and loss: "h ''val_loss'' = Some losses" "losses \<noteq> []"
    and add: "add_trial_measurement env (name t)
                [\<lparr>metric_id = ''accuracy'', metric_value = last accs\<rparr>] w3 = Inr w4"
    and cmp: "complete_trial env (name t) False w4 = Inr w5"
  shows "iteration env cfg s =
         Inr \<lparr>trial_id = PStr (last (split_on CHR ''/'' (name t))), batch_size = Some b,
              learning_rate = Some l, world = w5,
              calls = calls s @
                [(SuggestTrials (STUDY_ID cfg) (suggestion_count_per_request cfg) (client_id cfg),
                  Returned),
                 (GetTrial (name t), Returned),
                 (CreateMetricsCall (name t) n l (EPOCHS cfg) (STUDY_DISPLAY_NAME cfg), Returned),
                 (AddTrialMeasurement (name t)
                    [\<lparr>metric_id = ''accuracy'', metric_value = last accs\<rparr>], Returned),
                 (CompleteTrial (name t) False, Returned)]\<rparr>"
proof -
  let ?s1 = "s\<lparr>world := w1, calls := calls s @
       [(SuggestTrials (STUDY_ID cfg) (suggestion_count_per_request cfg) (client_id cfg),
         Returned)]\<rparr>"
  have g: "get_trial env (name t) (world ?s1) = Inr (tr, w2)" using gt by simp
  have b: "batch_size (assign_parameters (parameters tr) ?s1) = Some b"
    using bs by (simp add: assign_parameters_batch_size)
  have l: "learning_rate (assign_parameters (parameters tr) ?s1) = Some l"
    using lr by (simp add: assign_parameters_learning_rate)
  have cm: "CreateMetrics env cfg (name t) n l (EPOCHS cfg) (STUDY_DISPLAY_NAME cfg) w2
              = Inr ([\<lparr>metric_id = ''accuracy'', metric_value = last accs\<rparr>], w3)"
    by (rule CreateMetrics_returns[OF fit acc loss])
  have "iteration env cfg s = process_trial env cfg t ?s1"
    unfolding iteration_suggest_returns[OF sg]
    by (cases "process_trial env cfg t ?s1") simp_all
  also have "\<dots> = Inr \<lparr>trial_id = PStr (last (split_on CHR ''/'' (name t))), batch_size = Some b,
              learning_rate = Some l, world = w5,
              calls = calls s @
                [(SuggestTrials (STUDY_ID cfg) (suggestion_count_per_request cfg) (client_id cfg),
                  Returned),
                 (GetTrial (name t), Returned),
                 (CreateMetricsCall (name t) n l (EPOCHS cfg) (STUDY_DISPLAY_NAME cfg), Returned),
                 (AddTrialMeasurement (name t)
                    [\<lparr>metric_id = ''accuracy'', metric_value = last accs\<rparr>], Returned),
                 (CompleteTrial (name t) False, Returned)]\<rparr>"
    unfolding process_trial_live[OF g b l n]
    by (simp add: Let_def cm add cmp driver_all_updated)
  finally show ?thesis .
qed

lemma assigned_pending [simp]:
  "assigned ''batch_size'' [param ''batch_size'' b, param ''learning_rate'' l] = Some b"
  "assigned ''learning_rate'' [param ''batch_size'' b, param ''learning_rate'' l] = Some l"
  by (simp_all add: assigned_def)

section \<open>The claims\<close>

subsection \<open>C1: when the loop stops\<close>

text \<open>
  C1 as stated: the loop also stops when a suggestion request returns no further trials.
  It does not. With an optimizer that answers every request with the empty batch, the
  counter stays at 0, below the ceiling 2, and the loop asks again without end: the run
  returns nothing.
\<close>

theorem exhausted_optimizer_loops_forever:
  "trial_loop (scripted [] (Inr history_0_9)) notebook_config (initial []) = None"
proof (cases "trial_loop (scripted [] (Inr history_0_9)) notebook_config (initial [])")
  case None
  then show ?thesis .
next
  case (Some r)
  let ?env = "scripted [] (Inr history_0_9)"
  from trial_loop_returns[OF Some] obtain k sk where
    k: "iterations ?env notebook_config k (initial []) = Some sk"
    and ex: "loop_exit ?env notebook_config sk r" by blast
  have "trial_id sk = PInt 0 \<and> world sk = []"
  proof (rule iterations_invariant[OF k, where I = "\<lambda>s. trial_id s = PInt 0 \<and> world s = []"])
    show "trial_id (initial []) = PInt 0 \<and> world (initial []) = ([] :: trial list list)"
      by simp
  next
    fix s :: "trial list list driver" and n s'
    assume "trial_id s = PInt 0 \<and> world s = []"
      and "iteration ?env notebook_config s = Inr s'"
    then show "trial_id s' = PInt 0 \<and> world s' = []"
      by (auto simp: iteration_def log_call_def)
  qed
  then have "\<not> loop_exit ?env notebook_config sk r"
    by (simp add: loop_exit_def iteration_def log_call_def)
  with ex show ?thesis by contradiction
qed

text \<open>
  C1, amended: the loop stops normally exactly when, at its head, the integer value of
  \<^verbatim>\<open>trial_id\<close> (0 at the start, afterwards the last path segment of the name of the
  trial suggested last) has reached \<^verbatim>\<open>max_trial_id_to_stop\<close>: it returns at once when
  that is so, and a run that returned normally ended in such a state. An empty batch
  does not stop it: the pass ends normally with the counter unchanged, one more
  suggestion request on the trace, and the loop is at its head again.
\<close>

theorem loop_halts_at_ceiling_only:
  "(py_int (trial_id st) = Inr n \<and> max_trial_id_to_stop cfg \<le> n \<longrightarrow>
      trial_loop env cfg st = Some (Inr st))
   \<and> (trial_loop env cfg st = Some (Inr st') \<longrightarrow>
        (\<exists>m. py_int (trial_id st') = Inr m \<and> max_trial_id_to_stop cfg \<le> m))
   \<and> (py_int (trial_id st) = Inr n \<and> n < max_trial_id_to_stop cfg
        \<and> suggest_trials env (STUDY_ID cfg) (suggestion_count_per_request cfg) (client_id cfg)
             (world st) = Inr ([], w') \<longrightarrow>
      iteration env cfg st = Inr (st\<lparr>world := w', calls := calls st @
          [(SuggestTrials (STUDY_ID cfg) (suggestion_count_per_request cfg) (client_id cfg),
            Returned)]\<rparr>)
      \<and> trial_loop env cfg st = trial_loop env cfg (st\<lparr>world := w', calls := calls st @
          [(SuggestTrials (STUDY_ID cfg) (suggestion_count_per_request cfg) (client_id cfg),
            Returned)]\<rparr>))"
proof (intro conjI impI)
  assume "py_int (trial_id st) = Inr n \<and> max_trial_id_to_stop cfg \<le> n"
  then show "trial_loop env cfg st = Some (Inr st)" by (simp add: trial_loop_halt)
next
  assume "trial_loop env cfg st = Some (Inr st')"
  then show "\<exists>m. py_int (trial_id st') = Inr m \<and> max_trial_id_to_stop cfg \<le> m"
    by (rule trial_loop_halted_counter)
next
  assume h: "py_int (trial_id st) = Inr n \<and> n < max_trial_id_to_stop cfg
        \<and> suggest_trials env (STUDY_ID cfg) (suggestion_count_per_request cfg) (client_id cfg)
             (world st) = Inr ([], w')"
  then show it: "iteration env cfg st = Inr (st\<lparr>world := w', calls := calls st @
          [(SuggestTrials (STUDY_ID cfg) (suggestion_count_per_request cfg) (client_id cfg),
            Returned)]\<rparr>)"
    by (simp add: iteration_suggest_returns)
  from h trial_loop_step[OF _ _ it]
  show "trial_loop env cfg st = trial_loop env cfg (st\<lparr>world := w', calls := calls st @
          [(SuggestTrials (STUDY_ID cfg) (suggestion_count_per_request cfg) (client_id cfg),
            Returned)]\<rparr>)"
    by blast
qed

text \<open>
  The three parts at work: a state whose counter is \<^verbatim>\<open>"2"\<close> with ceiling 2, and the
  exhausted optimizer in the starting state.
\<close>

theorem loop_halts_at_ceiling_only_witness:
  "trial_loop (scripted [] (Inr history_0_9)) notebook_config
       \<lparr>trial_id = PStr ''2'', batch_size = Some f_32, learning_rate = Some f_0_001,
        world = [], calls = []\<rparr>
     = Some (Inr \<lparr>trial_id = PStr ''2'', batch_size = Some f_32, learning_rate = Some f_0_001,
                 world = [], calls = []\<rparr>)
   \<and> (\<exists>m. py_int (PStr ''2'') = Inr m \<and> max_trial_id_to_stop notebook_config \<le> m)
   \<and> iteration (scripted [] (Inr history_0_9)) notebook_config (initial [])
        = Inr ((initial [])\<lparr>world := [], calls := calls (initial []) @
            [(SuggestTrials (STUDY_ID notebook_config)
                (suggestion_count_per_request notebook_config) (client_id notebook_config),
              Returned)]\<rparr>)
   \<and> trial_loop (scripted [] (Inr history_0_9)) notebook_config (initial [])
        = trial_loop (scripted [] (Inr history_0_9)) notebook_config
            ((initial [])\<lparr>world := [], calls := calls (initial []) @
              [(SuggestTrials (STUDY_ID notebook_config)
                  (suggestion_count_per_request notebook_config) (client_id notebook_config),
                Returned)]\<rparr>)"
proof -
  let ?env = "scripted [] (Inr history_0_9)"
  let ?s2 = "\<lparr>trial_id = PStr ''2'', batch_size = Some f_32, learning_rate = Some f_0_001,
              world = [] :: trial list list, calls = []\<rparr>"
  have two: "py_int (trial_id ?s2) = Inr 2 \<and> max_trial_id_to_stop notebook_config \<le> 2"
    by (simp add: int_of_str_def strip_def is_space_def digit_val_def)
  have halt: "trial_loop ?env notebook_config ?s2 = Some (Inr ?s2)"
    using loop_halts_at_ceiling_only
      [where st = ?s2 and n = 2 and cfg = notebook_config and env = ?env] two
    by blast
  have counter: "\<exists>m. py_int (trial_id ?s2) = Inr m \<and> max_trial_id_to_stop notebook_config \<le> m"
    using loop_halts_at_ceiling_only
      [where st = ?s2 and st' = ?s2 and cfg = notebook_config and env = ?env] halt
    by blast
  have empty: "py_int (trial_id (initial ([] :: trial list list))) = Inr 0
      \<and> 0 < max_trial_id_to_stop notebook_config
      \<and> suggest_trials ?env (STUDY_ID notebook_config)
           (suggestion_count_per_request notebook_config) (client_id notebook_config)
           (world (initial [])) = Inr ([], [])"
    by simp
  from loop_halts_at_ceiling_only
      [where st = "initial []" and n = 0 and cfg = notebook_config and env = ?env
         and w' = "[]"] empty halt counter
  show ?thesis by simp
qed

subsection \<open>C2: how many trials are processed\<close>

text \<open>
  C2 as stated: with ceiling \<open>C\<close> the loop processes exactly
  \<open>min(C, available trials)\<close> trials. It compares the id of the trial suggested last
  with the ceiling instead. When the loop cell is run again on a study that already
  has the trials 1 and 2, the optimizer has the pending trials 3, 4 and 5 to hand out,
  one per request; with ceiling 2 the loop stops after trial 3, having processed one
  trial and not two.
\<close>

theorem second_run_processes_one_trial:
  "trial_loop (scripted [pending ''3'', pending ''4'', pending ''5''] (Inr history_0_9))
     notebook_config (initial [[pending ''3''], [pending ''4''], [pending ''5'']]) =
   Some (Inr \<lparr>trial_id = PStr ''3'', batch_size = Some f_32, learning_rate = Some f_0_001,
              world = [[pending ''4''], [pending ''5'']],
              calls =
                [(SuggestTrials ''studies/7'' 1 ''client_pcam'', Returned),
                 (GetTrial ''studies/7/trials/3'', Returned),
                 (CreateMetricsCall ''studies/7/trials/3'' 32 f_0_001 2 ''s'', Returned),
                 (AddTrialMeasurement ''studies/7/trials/3''
                    [\<lparr>metric_id = ''accuracy'', metric_value = f_0_9\<rparr>], Returned),
                 (CompleteTrial ''studies/7/trials/3'' False, Returned)]\<rparr>)
   \<and> completions
        [(SuggestTrials ''studies/7'' 1 ''client_pcam'', Returned),
         (GetTrial ''studies/7/trials/3'', Returned),
         (CreateMetricsCall ''studies/7/trials/3'' 32 f_0_001 2 ''s'', Returned),
         (AddTrialMeasurement ''studies/7/trials/3''
            [\<lparr>metric_id = ''accuracy'', metric_value = f_0_9\<rparr>], Returned),
         (CompleteTrial ''studies/7/trials/3'' False, Returned)] = 1"
  by (simp add: trial_loop.simps run_defs initial_def completions_def)

text \<open>
  C2, amended: the loop counts trial ids, not processed trials. After a batch that was
  worked off, the counter is the last path segment of the name of the batch's last
  trial, and the loop stops once its integer value has reached the ceiling \<open>C\<close>. So when
  the optimizer hands out one trial per request, numbered 1, 2, ... in the order of the
  requests, each naming a batch size and a learning rate, and neither a remote call nor
  a training run fails, the loop started with counter 0 returns with counter \<open>C\<close>, and it
  has completed exactly \<open>C\<close> trials. The hypotheses speak of the services only: \<open>I k\<close>
  holds of the worlds in which \<open>k\<close> trials have been handed out and completed.
\<close>

theorem loop_counts_trial_ids:
  "(ts \<noteq> [] \<and> for_trials env cfg ts s0 = Inr s1 \<longrightarrow>
      trial_id s1 = PStr (last (split_on CHR ''/'' (name (last ts)))))
   \<and> (0 \<le> max_trial_id_to_stop cfg \<and> trial_id st = PInt 0 \<and> I 0 (world st)
        \<and> (\<forall>k w. I k w \<and> int k < max_trial_id_to_stop cfg \<longrightarrow>
              (\<exists>t w1 tr w2 b n l h w3 accs losses w4 w5.
                 suggest_trials env (STUDY_ID cfg) (suggestion_count_per_request cfg)
                   (client_id cfg) w = Inr ([t], w1)
               \<and> py_int (PStr (last (split_on CHR ''/'' (name t)))) = Inr (int k + 1)
               \<and> get_trial env (name t) w1 = Inr (tr, w2)
               \<and> assigned ''batch_size'' (parameters tr) = Some b \<and> py_int b = Inr n
               \<and> assigned ''learning_rate'' (parameters tr) = Some l
               \<and> model_fit env n l
                    (BUCKET cfg @ ''/logs/pcam/'' @ STUDY_DISPLAY_NAME cfg @ ''/''
                       @ last (split_on CHR ''/'' (name t))) (EPOCHS cfg) w2 = Inr (h, w3)
               \<and> h ''val_accuracy'' = Some accs \<and> accs \<noteq> []
               \<and> h ''val_loss'' = Some losses \<and> losses \<noteq> []
               \<and> add_trial_measurement env (name t)
                    [\<lparr>metric_id = ''accuracy'', metric_value = last accs\<rparr>] w3 = Inr w4
               \<and> complete_trial env (name t) False w4 = Inr w5
               \<and> I (Suc k) w5))
      \<longrightarrow> (\<exists>st'. trial_loop env cfg st = Some (Inr st')
                 \<and> py_int (trial_id st') = Inr (max_trial_id_to_stop cfg)
                 \<and> completions (new_calls st (Inr st')) = nat (max_trial_id_to_stop cfg)))"
proof (intro conjI impI)
  assume "ts \<noteq> [] \<and> for_trials env cfg ts s0 = Inr s1"
  then show "trial_id s1 = PStr (last (split_on CHR ''/'' (name (last ts))))"
    using for_trials_trial_id by blast
next
  assume h: "0 \<le> max_trial_id_to_stop cfg \<and> trial_id st = PInt 0 \<and> I 0 (world st)
        \<and> (\<forall>k w. I k w \<and> int k < max_trial_id_to_stop cfg \<longrightarrow>
              (\<exists>t w1 tr w2 b n l h w3 accs losses w4 w5.
                 suggest_trials env (STUDY_ID cfg) (suggestion_count_per_request cfg)
                   (client_id cfg) w = Inr ([t], w1)
               \<and> py_int (PStr (last (split_on CHR ''/'' (name t)))) = Inr (int k + 1)
               \<and> get_trial env (name t) w1 = Inr (tr, w2)
               \<and> assigned ''batch_size'' (parameters tr) = Some b \<and> py_int b = Inr n
               \<and> assigned ''learning_rate'' (parameters tr) = Some l
               \<and> model_fit env n l
                    (BUCKET cfg @ ''/logs/pcam/'' @ STUDY_DISPLAY_NAME cfg @ ''/''
                       @ last (split_on CHR ''/'' (name t))) (EPOCHS cfg) w2 = Inr (h, w3)
               \<and> h ''val_accuracy'' = Some accs \<and> accs \<noteq> []
               \<and> h ''val_loss'' = Some losses \<and> losses \<noteq> []
               \<and> add_trial_measurement env (name t)
                    [\<lparr>metric_id = ''accuracy'', metric_value = last accs\<rparr>] w3 = Inr w4
               \<and> complete_trial env (name t) False w4 = Inr w5
               \<and> I (Suc k) w5))"
  let ?C = "nat (max_trial_id_to_stop cfg)"
  let ?P = "\<lambda>k s. py_int (trial_id s) = Inr (int k) \<and> I k (world s)"
  from h have C: "int ?C = max_trial_id_to_stop cfg" by simp
  have P0: "?P 0 st" using h by simp
  have le: "int ?C \<le> max_trial_id_to_stop cfg" using h by simp
  have step: "\<exists>s'. iteration env cfg s = Inr s' \<and> ?P (Suc k) s'
                \<and> completions (new_calls s (Inr s')) = 1"
    if "?P k s" and "int k < max_trial_id_to_stop cfg" for k s
  proof -
    from h that obtain t w1 tr w2 b n l hist w3 accs losses w4 w5 where
      sg: "suggest_trials env (STUDY_ID cfg) (suggestion_count_per_request cfg)
             (client_id cfg) (world s) = Inr ([t], w1)"
      and num: "py_int (PStr (last (split_on CHR ''/'' (name t)))) = Inr (int k + 1)"
      and gt: "get_trial env (name t) w1 = Inr (tr, w2)"
      and bs: "assigned ''batch_size'' (parameters tr) = Some b" and n: "py_int b = Inr n"
      and lr: "assigned ''learning_rate'' (parameters tr) = Some l"
      and fit: "model_fit env n l
                    (BUCKET cfg @ ''/logs/pcam/'' @ STUDY_DISPLAY_NAME cfg @ ''/''
                       @ last (split_on CHR ''/'' (name t))) (EPOCHS cfg) w2 = Inr (hist, w3)"
      and acc: "hist ''val_accuracy'' = Some accs" "accs \<noteq> []"
      and loss: "hist ''val_loss'' = Some losses" "losses \<noteq> []"
      and add: "add_trial_measurement env (name t)
                    [\<lparr>metric_id = ''accuracy'', metric_value = last accs\<rparr>] w3 = Inr w4"
      and cmp: "complete_trial env (name t) False w4 = Inr w5"
      and I': "I (Suc k) w5"
      by blast
    from pass_of_numbered_trial[OF sg gt bs n lr fit acc loss add cmp] num I'
    show ?thesis by (simp add: new_calls_def completions_def)
  qed
  have "\<exists>sj. iterations env cfg ?C st = Some sj \<and> ?P ?C sj
          \<and> completions (new_calls st (Inr sj)) = ?C"
    by (rule counted_iterations[where P = ?P, OF P0 step _ le]) simp_all
  then obtain sC where it: "iterations env cfg ?C st = Some sC" and PC: "?P ?C sC"
    and cC: "completions (new_calls st (Inr sC)) = ?C" by blast
  from PC C have ctr: "py_int (trial_id sC) = Inr (max_trial_id_to_stop cfg)" by simp
  then have "loop_exit env cfg sC (Inr sC)" by (simp add: loop_exit_def)
  from trial_loop_reaches_exit[OF it this] cC ctr
  show "\<exists>st'. trial_loop env cfg st = Some (Inr st')
                 \<and> py_int (trial_id st') = Inr (max_trial_id_to_stop cfg)
                 \<and> completions (new_calls st (Inr st')) = nat (max_trial_id_to_stop cfg)"
    by blast
qed

text \<open>
  After the batch of the one trial 1 the counter is \<^verbatim>\<open>"1"\<close>; and the scripted optimizer
  with the pending trials 1, 2, 3 and ceiling 2, where \<open>I k\<close> says that the first \<open>k\<close>
  batches are gone: the run completes two trials.
\<close>

theorem loop_counts_trial_ids_witness:
  "(\<exists>s1. for_trials (scripted [pending ''1''] (Inr history_0_9)) notebook_config
            [pending ''1''] (initial []) = Inr s1
          \<and> trial_id s1 = PStr (last (split_on CHR ''/'' (name (last [pending ''1''])))))
   \<and> (\<exists>st'. trial_loop (scripted [pending ''1'', pending ''2'', pending ''3''] (Inr history_0_9))
               notebook_config (initial [[pending ''1''], [pending ''2''], [pending ''3'']])
             = Some (Inr st')
           \<and> py_int (trial_id st') = Inr (max_trial_id_to_stop notebook_config)
           \<and> completions
               (new_calls (initial [[pending ''1''], [pending ''2''], [pending ''3'']]) (Inr st'))
             = nat (max_trial_id_to_stop notebook_config))"
proof
  let ?e1 = "scripted [pending ''1''] (Inr history_0_9)"
  obtain s1 where s1: "for_trials ?e1 notebook_config [pending ''1''] (initial []) = Inr s1"
    by (simp add: run_defs initial_def)
  with loop_counts_trial_ids
    [where ts = "[pending ''1'']" and env = ?e1 and cfg = notebook_config
       and ?s0.0 = "initial []" and ?s1.0 = s1]
  show "\<exists>s1. for_trials ?e1 notebook_config [pending ''1''] (initial []) = Inr s1
          \<and> trial_id s1 = PStr (last (split_on CHR ''/'' (name (last [pending ''1'']))))"
    by blast
next
  let ?env = "scripted [pending ''1'', pending ''2'', pending ''3''] (Inr history_0_9)"
  let ?st = "initial [[pending ''1''], [pending ''2''], [pending ''3'']]"
  let ?I = "\<lambda>(k :: nat) (w :: trial list list).
      (k = 0 \<and> w = [[pending ''1''], [pending ''2''], [pending ''3'']])
    \<or> (k = 1 \<and> w = [[pending ''2''], [pending ''3'']])
    \<or> (k = 2 \<and> w = [[pending ''3'']])"
  have hands_out: "\<exists>t w1 tr w2 b n l h w3 accs losses w4 w5.
         suggest_trials ?env (STUDY_ID notebook_config)
           (suggestion_count_per_request notebook_config) (client_id notebook_config) w
           = Inr ([t], w1)
       \<and> py_int (PStr (last (split_on CHR ''/'' (name t)))) = Inr (int k + 1)
       \<and> get_trial ?env (name t) w1 = Inr (tr, w2)
       \<and> assigned ''batch_size'' (parameters tr) = Some b \<and> py_int b = Inr n
       \<and> assigned ''learning_rate'' (parameters tr) = Some l
       \<and> model_fit ?env n l
            (BUCKET notebook_config @ ''/logs/pcam/'' @ STUDY_DISPLAY_NAME notebook_config
               @ ''/'' @ last (split_on CHR ''/'' (name t))) (EPOCHS notebook_config) w2
           = Inr (h, w3)
       \<and> h ''val_accuracy'' = Some accs \<and> accs \<noteq> []
       \<and> h ''val_loss'' = Some losses \<and> losses \<noteq> []
       \<and> add_trial_measurement ?env (name t)
            [\<lparr>metric_id = ''accuracy'', metric_value = last accs\<rparr>] w3 = Inr w4
       \<and> complete_trial ?env (name t) False w4 = Inr w5
       \<and> ?I (Suc k) w5"
    if "?I k w \<and> int k < max_trial_id_to_stop notebook_config" for k w
  proof -
    from that consider "k = 0" "w = [[pending ''1''], [pending ''2''], [pending ''3'']]"
      | "k = 1" "w = [[pending ''2''], [pending ''3'']]"
      by auto
    then show ?thesis
    proof cases
      case 1
      then show ?thesis
        by (intro exI[where x = "pending ''1''"] exI[where x = "[[pending ''2''], [pending ''3'']]"]
            exI[where x = f_32] exI[where x = 32] exI[where x = f_0_001]
            exI[where x = history_0_9] exI[where x = "[f_0_75, f_0_9]"]
            exI[where x = "[f_0_75, f_0_001]"])
          (simp add: history_0_9_def f_32_def int_of_str_def strip_def is_space_def digit_val_def)
    next
      case 2
      then show ?thesis
        by (intro exI[where x = "pending ''2''"] exI[where x = "[[pending ''3'']]"]
            exI[where x = f_32] exI[where x = 32] exI[where x = f_0_001]
            exI[where x = history_0_9] exI[where x = "[f_0_75, f_0_9]"]
            exI[where x = "[f_0_75, f_0_001]"])
          (simp add: history_0_9_def f_32_def int_of_str_def strip_def is_space_def digit_val_def)
    qed
  qed
  have "0 \<le> max_trial_id_to_stop notebook_config \<and> trial_id ?st = PInt 0 \<and> ?I 0 (world ?st)"
    by simp
  with hands_out loop_counts_trial_ids
    [where I = ?I and env = ?env and cfg = notebook_config and st = ?st]
  show "\<exists>st'. trial_loop ?env notebook_config ?st = Some (Inr st')
           \<and> py_int (trial_id st') = Inr (max_trial_id_to_stop notebook_config)
           \<and> completions (new_calls ?st (Inr st')) = nat (max_trial_id_to_stop notebook_config)"
    by blast
qed

subsection \<open>C3: the infeasible flag\<close>

text \<open>
  C3 as stated: a completion with \<open>infeasible = true\<close> is reported when the evaluation
  finds the configuration unusable. The notebook has no such path. When the training
  run of trial 1 fails, the error leaves the loop, and no completion of any kind is
  reported for the trial.
\<close>

theorem failed_evaluation_is_not_reported_infeasible:
  "trial_loop (scripted [pending ''1''] (Inl (ServiceError ''ResourceExhaustedError'')))
     notebook_config (initial [[pending ''1'']]) =
   Some (Inl (ServiceError ''ResourceExhaustedError'',
     \<lparr>trial_id = PStr ''1'', batch_size = Some f_32, learning_rate = Some f_0_001,
      world = [],
      calls = [(SuggestTrials ''studies/7'' 1 ''client_pcam'', Returned),
               (GetTrial ''studies/7/trials/1'', Returned),
               (CreateMetricsCall ''studies/7/trials/1'' 32 f_0_001 2 ''s'',
                Raised (ServiceError ''ResourceExhaustedError''))]\<rparr>))
   \<and> completions
        [(SuggestTrials ''studies/7'' 1 ''client_pcam'', Returned),
         (GetTrial ''studies/7/trials/1'', Returned),
         (CreateMetricsCall ''studies/7/trials/1'' 32 f_0_001 2 ''s'',
          Raised (ServiceError ''ResourceExhaustedError''))] = 0"
  by (simp add: run_failing_evaluation completions_def)

text \<open>
  C3, amended: every completion that the driver reports carries \<open>infeasible = false\<close>;
  no pass of the loop and no run of it issues \<^verbatim>\<open>complete_trial\<close> with
  \<open>trial_infeasible = True\<close>.
\<close>

theorem completions_never_report_infeasible:
  "\<not> list_ex reports_infeasible (new_calls st (iteration env cfg st))
   \<and> (\<forall>r. trial_loop env cfg st = Some r \<longrightarrow> \<not> list_ex reports_infeasible (new_calls st r))"
  using iteration_feasible trial_loop_feasible by blast

text \<open>
  The pass and the run of the failing evaluation above.
\<close>

theorem completions_never_report_infeasible_witness:
  "\<not> list_ex reports_infeasible
       (new_calls (initial [[pending ''1'']])
          (iteration (scripted [pending ''1''] (Inl (ServiceError ''ResourceExhaustedError'')))
             notebook_config (initial [[pending ''1'']])))
   \<and> \<not> list_ex reports_infeasible
       (new_calls (initial [[pending ''1'']])
          (Inl (ServiceError ''ResourceExhaustedError'',
     \<lparr>trial_id = PStr ''1'', batch_size = Some f_32, learning_rate = Some f_0_001,
      world = [],
      calls = [(SuggestTrials ''studies/7'' 1 ''client_pcam'', Returned),
               (GetTrial ''studies/7/trials/1'', Returned),
               (CreateMetricsCall ''studies/7/trials/1'' 32 f_0_001 2 ''s'',
                Raised (ServiceError ''ResourceExhaustedError''))]\<rparr>)))"
  using completions_never_report_infeasible
    [of "initial [[pending ''1'']]"
        "scripted [pending ''1''] (Inl (ServiceError ''ResourceExhaustedError''))"
        notebook_config]
    run_failing_evaluation
  by blast

subsection \<open>C4: what the evaluation arguments depend on\<close>

text \<open>
  C4 as stated: nothing but the trial counter is kept from one iteration to the next, so
  the arguments of the evaluation depend on the trial's own parameters only. The
  variables \<^verbatim>\<open>batch_size\<close> and \<^verbatim>\<open>learning_rate\<close> are kept as well. Trial 2 below names
  no batch size; it is evaluated with batch size 16 in the run whose trial 1 had 16, and
  with 64 in the run whose trial 1 had 64.
\<close>

theorem missing_parameter_keeps_earlier_value:
  "trial_loop
     (scripted [a_trial ''1'' ACTIVE [param ''batch_size'' f_16, param ''learning_rate'' f_0_001],
                a_trial ''2'' ACTIVE [param ''learning_rate'' f_0_001]] (Inr history_0_9))
     notebook_config
     (initial [[a_trial ''1'' ACTIVE [param ''batch_size'' f_16, param ''learning_rate'' f_0_001]],
               [a_trial ''2'' ACTIVE [param ''learning_rate'' f_0_001]]]) =
   Some (Inr \<lparr>trial_id = PStr ''2'', batch_size = Some f_16, learning_rate = Some f_0_001,
              world = [],
              calls =
                [(SuggestTrials ''studies/7'' 1 ''client_pcam'', Returned),
                 (GetTrial ''studies/7/trials/1'', Returned),
                 (CreateMetricsCall ''studies/7/trials/1'' 16 f_0_001 2 ''s'', Returned),
                 (AddTrialMeasurement ''studies/7/trials/1''
                    [\<lparr>metric_id = ''accuracy'', metric_value = f_0_9\<rparr>], Returned),
                 (CompleteTrial ''studies/7/trials/1'' False, Returned),
                 (SuggestTrials ''studies/7'' 1 ''client_pcam'', Returned),
                 (GetTrial ''studies/7/trials/2'', Returned),
                 (CreateMetricsCall ''studies/7/trials/2'' 16 f_0_001 2 ''s'', Returned),
                 (AddTrialMeasurement ''studies/7/trials/2''
                    [\<lparr>metric_id = ''accuracy'', metric_value = f_0_9\<rparr>], Returned),
                 (CompleteTrial ''studies/7/trials/2'' False, Returned)]\<rparr>)
   \<and> trial_loop
     (scripted [a_trial ''1'' ACTIVE [param ''batch_size'' f_64, param ''learning_rate'' f_0_001],
                a_trial ''2'' ACTIVE [param ''learning_rate'' f_0_001]] (Inr history_0_9))
     notebook_config
     (initial [[a_trial ''1'' ACTIVE [param ''batch_size'' f_64, param ''learning_rate'' f_0_001]],
               [a_trial ''2'' ACTIVE [param ''learning_rate'' f_0_001]]]) =
   Some (Inr \<lparr>trial_id = PStr ''2'', batch_size = Some f_64, learning_rate = Some f_0_001,
              world = [],
              calls =
                [(SuggestTrials ''studies/7'' 1 ''client_pcam'', Returned),
                 (GetTrial ''studies/7/trials/1'', Returned),
                 (CreateMetricsCall ''studies/7/trials/1'' 64 f_0_001 2 ''s'', Returned),
                 (AddTrialMeasurement ''studies/7/trials/1''
                    [\<lparr>metric_id = ''accuracy'', metric_value = f_0_9\<rparr>], Returned),
                 (CompleteTrial ''studies/7/trials/1'' False, Returned),
                 (SuggestTrials ''studies/7'' 1 ''client_pcam'', Returned),
                 (GetTrial ''studies/7/trials/2'', Returned),
                 (CreateMetricsCall ''studies/7/trials/2'' 64 f_0_001 2 ''s'', Returned),
                 (AddTrialMeasurement ''studies/7/trials/2''
                    [\<lparr>metric_id = ''accuracy'', metric_value = f_0_9\<rparr>], Returned),
                 (CompleteTrial ''studies/7/trials/2'' False, Returned)]\<rparr>)"
  by (simp add: trial_loop.simps run_defs initial_def)

text \<open>
  C4, amended: for a trial that can be fetched and whose own parameter list names both
  \<^verbatim>\<open>batch_size\<close> and \<^verbatim>\<open>learning_rate\<close>, the whole step (the calls it issues, their
  arguments, and the state it leaves) is the same whatever values the variables
  \<^verbatim>\<open>trial_id\<close>, \<^verbatim>\<open>batch_size\<close> and \<^verbatim>\<open>learning_rate\<close> held before.
\<close>

theorem arguments_come_from_own_parameters:
  assumes "get_trial env (name t) (world s1) = Inr (tr, w')"
    and "assigned ''batch_size'' (parameters tr) = Some b"
    and "assigned ''learning_rate'' (parameters tr) = Some l"
    and "world s2 = world s1" "calls s2 = calls s1"
  shows "process_trial env cfg t s2 = process_trial env cfg t s1"
proof -
  have g2: "get_trial env (name t) (world s2) = Inr (tr, w')" using assms by simp
  have b1: "batch_size (assign_parameters (parameters tr) s1) = Some b"
    and b2: "batch_size (assign_parameters (parameters tr) s2) = Some b"
    using assms(2) by (simp_all add: assign_parameters_batch_size)
  have l1: "learning_rate (assign_parameters (parameters tr) s1) = Some l"
    and l2: "learning_rate (assign_parameters (parameters tr) s2) = Some l"
    using assms(3) by (simp_all add: assign_parameters_learning_rate)
  show ?thesis
  proof (cases "py_int b")
    case (Inl e)
    show ?thesis
      unfolding process_trial_bad_batch_size[OF assms(1) b1 l1 Inl]
        process_trial_bad_batch_size[OF g2 b2 l2 Inl]
      using assms(4,5) by (simp add: driver_all_updated)
  next
    case (Inr n)
    show ?thesis
      unfolding process_trial_live[OF assms(1) b1 l1 Inr]
        process_trial_live[OF g2 b2 l2 Inr]
      using assms(4,5) by (simp add: Let_def driver_all_updated split: sum.splits prod.splits)
  qed
qed

text \<open>
  Trial 1 after an iteration that left batch size 64 and learning rate 0.9, and trial 1
  in the starting state.
\<close>

theorem arguments_come_from_own_parameters_witness:
  "process_trial (scripted [pending ''1''] (Inr history_0_9)) notebook_config (pending ''1'')
     \<lparr>trial_id = PStr ''7'', batch_size = Some f_64, learning_rate = Some f_0_9,
      world = [], calls = []\<rparr>
   = process_trial (scripted [pending ''1''] (Inr history_0_9)) notebook_config (pending ''1'')
       (initial [])"
proof -
  let ?env = "scripted [pending ''1''] (Inr history_0_9)"
  have "get_trial ?env (name (pending ''1'')) (world (initial [])) = Inr (pending ''1'', [])"
    by simp
  from arguments_come_from_own_parameters[OF this, where b = f_32 and l = f_0_001
      and ?s2.0 = "\<lparr>trial_id = PStr ''7'', batch_size = Some f_64, learning_rate = Some f_0_9,
                       world = [], calls = []\<rparr>"]
  show ?thesis by simp
qed

subsection \<open>C5: the scenario with ceiling 2\<close>

text \<open>
  C5 as stated: ceiling 2, one pending trial per request and accuracy 0.9 from every
  evaluation give exactly two \<^verbatim>\<open>complete\<close> calls. That holds only for trials numbered
  from 1. When the study already has four trials and the optimizer hands out the pending
  trials 5 and 6, the loop stops after trial 5, with one completion.
\<close>

theorem later_trial_ids_complete_once:
  "trial_loop (scripted [pending ''5'', pending ''6''] (Inr history_0_9))
     notebook_config (initial [[pending ''5''], [pending ''6'']]) =
   Some (Inr \<lparr>trial_id = PStr ''5'', batch_size = Some f_32, learning_rate = Some f_0_001,
              world = [[pending ''6'']],
              calls =
                [(SuggestTrials ''studies/7'' 1 ''client_pcam'', Returned),
                 (GetTrial ''studies/7/trials/5'', Returned),
                 (CreateMetricsCall ''studies/7/trials/5'' 32 f_0_001 2 ''s'', Returned),
                 (AddTrialMeasurement ''studies/7/trials/5''
                    [\<lparr>metric_id = ''accuracy'', metric_value = f_0_9\<rparr>], Returned),
                 (CompleteTrial ''studies/7/trials/5'' False, Returned)]\<rparr>)
   \<and> completions
        [(SuggestTrials ''studies/7'' 1 ''client_pcam'', Returned),
         (GetTrial ''studies/7/trials/5'', Returned),
         (CreateMetricsCall ''studies/7/trials/5'' 32 f_0_001 2 ''s'', Returned),
         (AddTrialMeasurement ''studies/7/trials/5''
            [\<lparr>metric_id = ''accuracy'', metric_value = f_0_9\<rparr>], Returned),
         (CompleteTrial ''studies/7/trials/5'' False, Returned)] = 1"
  by (simp add: trial_loop.simps run_defs initial_def completions_def)

text \<open>
  C5, amended: with ceiling 2, an optimizer that returns one pending trial per request,
  numbered 1, 2, 3 in the order of the requests, and evaluations that all end with
  validation accuracy 0.9, the run returns after two passes. Its trace has exactly two
  completions, for the trials 1 and 2, each right after the one measurement report
  \<open>accuracy = 0.9\<close> for the same trial; the third trial is never requested.
\<close>

theorem two_trials_scenario:
  "trial_loop (scripted [pending ''1'', pending ''2'', pending ''3''] (Inr history_0_9))
     notebook_config (initial [[pending ''1''], [pending ''2''], [pending ''3'']]) =
   Some (Inr \<lparr>trial_id = PStr ''2'', batch_size = Some f_32, learning_rate = Some f_0_001,
              world = [[pending ''3'']],
              calls =
                [(SuggestTrials ''studies/7'' 1 ''client_pcam'', Returned),
                 (GetTrial ''studies/7/trials/1'', Returned),
                 (CreateMetricsCall ''studies/7/trials/1'' 32 f_0_001 2 ''s'', Returned),
                 (AddTrialMeasurement ''studies/7/trials/1''
                    [\<lparr>metric_id = ''accuracy'', metric_value = f_0_9\<rparr>], Returned),
                 (CompleteTrial ''studies/7/trials/1'' False, Returned),
                 (SuggestTrials ''studies/7'' 1 ''client_pcam'', Returned),
                 (GetTrial ''studies/7/trials/2'', Returned),
                 (CreateMetricsCall ''studies/7/trials/2'' 32 f_0_001 2 ''s'', Returned),
                 (AddTrialMeasurement ''studies/7/trials/2''
                    [\<lparr>metric_id = ''accuracy'', metric_value = f_0_9\<rparr>], Returned),
                 (CompleteTrial ''studies/7/trials/2'' False, Returned)]\<rparr>)"
  by (simp add: trial_loop.simps run_defs initial_def)

text \<open>
  The number of completions of that run.
\<close>

theorem two_trials_scenario_witness:
  "\<exists>st'. trial_loop (scripted [pending ''1'', pending ''2'', pending ''3''] (Inr history_0_9))
            notebook_config (initial [[pending ''1''], [pending ''2''], [pending ''3'']])
          = Some (Inr st')
        \<and> completions (calls st') = 2"
  using two_trials_scenario by (simp add: completions_def)

subsection \<open>C6: failures\<close>

text \<open>
  C6: when, after \<open>k\<close> full passes, a remote call or the evaluation raises \<open>e\<close> in the
  next pass, the loop returns with \<open>e\<close> and the state at the raise. In the trace of the
  whole run every call before the last one has returned, and a call that raised is the
  last call: nothing is retried, and no report, completion or suggestion request
  follows it. In particular, when the evaluation of a trial raises, the trial's step
  ends with that error right after its \<^verbatim>\<open>get_trial\<close> and the failed evaluation, without
  a measurement report and without a completion.
\<close>

theorem failure_ends_the_run:
  assumes "all_returned (calls st)"
    and "iterations env cfg k st = Some sk"
    and "py_int (trial_id sk) = Inr n" and "n < max_trial_id_to_stop cfg"
    and "iteration env cfg sk = Inl (e, s')"
  shows "trial_loop env cfg st = Some (Inl (e, s'))
       \<and> all_returned (butlast (calls s'))
       \<and> (\<forall>c e'. (c, Raised e') \<in> set (calls s') \<longrightarrow> e' = e \<and> last (calls s') = (c, Raised e))
       \<and> (\<forall>t s0 tr w' b l m e0.
             get_trial env (name t) (world s0) = Inr (tr, w')
             \<and> batch_size (assign_parameters (parameters tr) s0) = Some b
             \<and> learning_rate (assign_parameters (parameters tr) s0) = Some l
             \<and> py_int b = Inr m
             \<and> CreateMetrics env cfg (name t) m l (EPOCHS cfg) (STUDY_DISPLAY_NAME cfg) w' = Inl e0
             \<longrightarrow> (\<exists>s. process_trial env cfg t s0 = Inl (e0, s)
                      \<and> new_calls s0 (Inl (e0, s)) =
                          [(GetTrial (name t), Returned),
                           (CreateMetricsCall (name t) m l (EPOCHS cfg) (STUDY_DISPLAY_NAME cfg),
                            Raised e0)]))"
proof (intro conjI allI impI)
  have "loop_exit env cfg sk (Inl (e, s'))"
    using assms(3-5) by (simp add: loop_exit_def)
  from trial_loop_reaches_exit[OF assms(2) this]
  show "trial_loop env cfg st = Some (Inl (e, s'))" .
next
  have "all_returned (calls sk)" by (rule iterations_all_returned[OF assms(2,1)])
  from iteration_well_ended[OF this, of env cfg] assms(5)
  have ew: "ends_with e (calls s')" by (simp add: well_ended_def)
  then show "all_returned (butlast (calls s'))" by (simp add: ends_with_def)
  fix c e' assume "(c, Raised e') \<in> set (calls s')"
  from ends_with_raised_last[OF ew this]
  show "e' = e" and "last (calls s') = (c, Raised e)" by simp_all
next
  fix t :: trial and s0 :: "'a driver" and tr :: trial and w' :: 'a and b l m e0
  assume h: "get_trial env (name t) (world s0) = Inr (tr, w')
             \<and> batch_size (assign_parameters (parameters tr) s0) = Some b
             \<and> learning_rate (assign_parameters (parameters tr) s0) = Some l
             \<and> py_int b = Inr m
             \<and> CreateMetrics env cfg (name t) m l (EPOCHS cfg) (STUDY_DISPLAY_NAME cfg) w' = Inl e0"
  then have "process_trial env cfg t s0 =
      Inl (e0, s0\<lparr>trial_id := PStr (last (split_on CHR ''/'' (name t))), batch_size := Some b,
                   learning_rate := Some l, world := w', calls := calls s0 @
                     [(GetTrial (name t), Returned),
                      (CreateMetricsCall (name t) m l (EPOCHS cfg) (STUDY_DISPLAY_NAME cfg),
                       Raised e0)]\<rparr>)"
    using process_trial_live[of env t s0 tr w' b l m cfg] by (simp add: Let_def)
  then show "\<exists>s. process_trial env cfg t s0 = Inl (e0, s)
                      \<and> new_calls s0 (Inl (e0, s)) =
                          [(GetTrial (name t), Returned),
                           (CreateMetricsCall (name t) m l (EPOCHS cfg) (STUDY_DISPLAY_NAME cfg),
                            Raised e0)]"
    by (simp add: new_calls_def)
qed

text \<open>
  A run whose second pass fails in \<^verbatim>\<open>get_trial\<close> (trial 9 is unknown to the service),
  and a trial whose training run fails.
\<close>

theorem failure_ends_the_run_witness:
  "trial_loop (scripted [pending ''1''] (Inr history_0_9)) notebook_config
     (initial [[pending ''1''], [pending ''9'']]) =
   Some (Inl (ServiceError ''NOT_FOUND'',
     \<lparr>trial_id = PStr ''9'', batch_size = Some f_32, learning_rate = Some f_0_001,
      world = [],
      calls = [(SuggestTrials ''studies/7'' 1 ''client_pcam'', Returned),
               (GetTrial ''studies/7/trials/1'', Returned),
               (CreateMetricsCall ''studies/7/trials/1'' 32 f_0_001 2 ''s'', Returned),
               (AddTrialMeasurement ''studies/7/trials/1''
                  [\<lparr>metric_id = ''accuracy'', metric_value = f_0_9\<rparr>], Returned),
               (CompleteTrial ''studies/7/trials/1'' False, Returned),
               (SuggestTrials ''studies/7'' 1 ''client_pcam'', Returned),
               (GetTrial ''studies/7/trials/9'', Raised (ServiceError ''NOT_FOUND''))]\<rparr>))
   \<and> last [(SuggestTrials ''studies/7'' 1 ''client_pcam'', Returned),
            (GetTrial ''studies/7/trials/1'', Returned),
            (CreateMetricsCall ''studies/7/trials/1'' 32 f_0_001 2 ''s'', Returned),
            (AddTrialMeasurement ''studies/7/trials/1''
               [\<lparr>metric_id = ''accuracy'', metric_value = f_0_9\<rparr>], Returned),
            (CompleteTrial ''studies/7/trials/1'' False, Returned),
            (SuggestTrials ''studies/7'' 1 ''client_pcam'', Returned),
            (GetTrial ''studies/7/trials/9'', Raised (ServiceError ''NOT_FOUND''))]
       = (GetTrial ''studies/7/trials/9'', Raised (ServiceError ''NOT_FOUND''))
   \<and> (\<exists>s. process_trial (scripted [pending ''1''] (Inl (ServiceError ''ResourceExhaustedError'')))
             notebook_config (pending ''1'') (initial [[pending ''1'']])
           = Inl (ServiceError ''ResourceExhaustedError'', s)
         \<and> new_calls (initial [[pending ''1'']]) (Inl (ServiceError ''ResourceExhaustedError'', s))
           = [(GetTrial ''studies/7/trials/1'', Returned),
              (CreateMetricsCall ''studies/7/trials/1'' 32 f_0_001 2 ''s'',
               Raised (ServiceError ''ResourceExhaustedError''))])"
proof (intro conjI)
  let ?env = "scripted [pending ''1''] (Inr history_0_9)"
  let ?st = "initial [[pending ''1''], [pending ''9'']]"
  let ?first = "[(SuggestTrials ''studies/7'' 1 ''client_pcam'', Returned),
               (GetTrial ''studies/7/trials/1'', Returned),
               (CreateMetricsCall ''studies/7/trials/1'' 32 f_0_001 2 ''s'', Returned),
               (AddTrialMeasurement ''studies/7/trials/1''
                  [\<lparr>metric_id = ''accuracy'', metric_value = f_0_9\<rparr>], Returned),
               (CompleteTrial ''studies/7/trials/1'' False, Returned)]"
  let ?sk = "\<lparr>trial_id = PStr ''1'', batch_size = Some f_32, learning_rate = Some f_0_001,
              world = [[pending ''9'']], calls = ?first\<rparr>"
  let ?s' = "\<lparr>trial_id = PStr ''9'', batch_size = Some f_32, learning_rate = Some f_0_001,
              world = [],
              calls = ?first @ [(SuggestTrials ''studies/7'' 1 ''client_pcam'', Returned),
                (GetTrial ''studies/7/trials/9'', Raised (ServiceError ''NOT_FOUND''))]\<rparr>"
  have a1: "all_returned (calls ?st)" by simp
  have a2: "iterations ?env notebook_config (Suc 0) ?st = Some ?sk"
    by (simp add: run_defs initial_def)
  have a3: "py_int (trial_id ?sk) = Inr 1"
    by (simp add: int_of_str_def strip_def is_space_def digit_val_def)
  have a4: "(1 :: int) < max_trial_id_to_stop notebook_config" by simp
  have a5: "iteration ?env notebook_config ?sk = Inl (ServiceError ''NOT_FOUND'', ?s')"
    by (simp add: run_defs)
  note run = failure_ends_the_run[OF a1 a2 a3 a4 a5]
  from run show "trial_loop ?env notebook_config ?st =
     Some (Inl (ServiceError ''NOT_FOUND'',
     \<lparr>trial_id = PStr ''9'', batch_size = Some f_32, learning_rate = Some f_0_001,
      world = [],
      calls = [(SuggestTrials ''studies/7'' 1 ''client_pcam'', Returned),
               (GetTrial ''studies/7/trials/1'', Returned),
               (CreateMetricsCall ''studies/7/trials/1'' 32 f_0_001 2 ''s'', Returned),
               (AddTrialMeasurement ''studies/7/trials/1''
                  [\<lparr>metric_id = ''accuracy'', metric_value = f_0_9\<rparr>], Returned),
               (CompleteTrial ''studies/7/trials/1'' False, Returned),
               (SuggestTrials ''studies/7'' 1 ''client_pcam'', Returned),
               (GetTrial ''studies/7/trials/9'', Raised (ServiceError ''NOT_FOUND''))]\<rparr>))"
    by simp
  have "(GetTrial ''studies/7/trials/9'', Raised (ServiceError ''NOT_FOUND'')) \<in> set (calls ?s')"
    by simp
  from run[THEN conjunct2, THEN conjunct2, THEN conjunct1, rule_format, OF this]
  have "last (calls ?s')
      = (GetTrial ''studies/7/trials/9'', Raised (ServiceError ''NOT_FOUND''))"
    by simp
  then show "last [(SuggestTrials ''studies/7'' 1 ''client_pcam'', Returned),
            (GetTrial ''studies/7/trials/1'', Returned),
            (CreateMetricsCall ''studies/7/trials/1'' 32 f_0_001 2 ''s'', Returned),
            (AddTrialMeasurement ''studies/7/trials/1''
               [\<lparr>metric_id = ''accuracy'', metric_value = f_0_9\<rparr>], Returned),
            (CompleteTrial ''studies/7/trials/1'' False, Returned),
            (SuggestTrials ''studies/7'' 1 ''client_pcam'', Returned),
            (GetTrial ''studies/7/trials/9'', Raised (ServiceError ''NOT_FOUND''))]
       = (GetTrial ''studies/7/trials/9'', Raised (ServiceError ''NOT_FOUND''))"
    by simp
next
  let ?env = "scripted [pending ''1''] (Inl (ServiceError ''ResourceExhaustedError''))"
  let ?st = "initial [[pending ''1'']]"
  let ?s' = "\<lparr>trial_id = PStr ''1'', batch_size = Some f_32, learning_rate = Some f_0_001,
      world = [],
      calls = [(SuggestTrials ''studies/7'' 1 ''client_pcam'', Returned),
               (GetTrial ''studies/7/trials/1'', Returned),
               (CreateMetricsCall ''studies/7/trials/1'' 32 f_0_001 2 ''s'',
                Raised (ServiceError ''ResourceExhaustedError''))]\<rparr>"
  have a1: "all_returned (calls ?st)" by simp
  have a2: "iterations ?env notebook_config 0 ?st = Some ?st" by simp
  have a3: "py_int (trial_id ?st) = Inr 0" by simp
  have a4: "(0 :: int) < max_trial_id_to_stop notebook_config" by simp
  have a5: "iteration ?env notebook_config ?st = Inl (ServiceError ''ResourceExhaustedError'', ?s')"
    by (simp add: run_defs initial_def)
  have ev: "get_trial ?env (name (pending ''1'')) (world ?st) = Inr (pending ''1'', [[pending ''1'']])
      \<and> batch_size (assign_parameters (parameters (pending ''1'')) ?st) = Some f_32
      \<and> learning_rate (assign_parameters (parameters (pending ''1'')) ?st) = Some f_0_001
      \<and> py_int f_32 = Inr 32
      \<and> CreateMetrics ?env notebook_config (name (pending ''1'')) 32 f_0_001
          (EPOCHS notebook_config) (STUDY_DISPLAY_NAME notebook_config) [[pending ''1'']]
          = Inl (ServiceError ''ResourceExhaustedError'')"
    by (simp add: CreateMetrics_def run_model_training_def py_last_def f_32_def)
  from failure_ends_the_run[OF a1 a2 a3 a4 a5, THEN conjunct2, THEN conjunct2, THEN conjunct2,
      rule_format, OF ev]
  have "\<exists>s. process_trial ?env notebook_config (pending ''1'') ?st
           = Inl (ServiceError ''ResourceExhaustedError'', s)
         \<and> new_calls ?st (Inl (ServiceError ''ResourceExhaustedError'', s))
           = [(GetTrial (name (pending ''1'')), Returned),
              (CreateMetricsCall (name (pending ''1'')) 32 f_0_001 (EPOCHS notebook_config)
                 (STUDY_DISPLAY_NAME notebook_config),
               Raised (ServiceError ''ResourceExhaustedError''))]" .
  then show "\<exists>s. process_trial ?env notebook_config (pending ''1'') ?st
           = Inl (ServiceError ''ResourceExhaustedError'', s)
         \<and> new_calls ?st (Inl (ServiceError ''ResourceExhaustedError'', s))
           = [(GetTrial ''studies/7/trials/1'', Returned),
              (CreateMetricsCall ''studies/7/trials/1'' 32 f_0_001 2 ''s'',
               Raised (ServiceError ''ResourceExhaustedError''))]"
    by simp
qed

subsection \<open>C7: terminal and other trials\<close>

text \<open>
  C7: a suggested trial in a terminal state is to be skipped, and the cell tries to:
  \<^verbatim>\<open>if trial.state in ["COMPLETED", "INFEASIBLE"]: continue\<close>. The test compares a member
  of \<^verbatim>\<open>Trial.State\<close> with strings and is false for every state (\<open>state_in_strings\<close>), so
  the \<^verbatim>\<open>continue\<close> is never reached. The trial 1 below is \<^verbatim>\<open>INFEASIBLE\<close>, and trial 2 is
  \<^verbatim>\<open>SUCCEEDED\<close>: each is evaluated, a measurement is reported for it, and it is
  completed once more.
\<close>

theorem terminal_trials_are_processed:
  "process_trial (scripted [terminal INFEASIBLE ''1'', terminal SUCCEEDED ''2''] (Inr history_0_9))
     notebook_config (terminal INFEASIBLE ''1'') (initial []) =
   Inr \<lparr>trial_id = PStr ''1'', batch_size = Some f_32, learning_rate = Some f_0_001,
        world = [],
        calls = [(GetTrial ''studies/7/trials/1'', Returned),
                 (CreateMetricsCall ''studies/7/trials/1'' 32 f_0_001 2 ''s'', Returned),
                 (AddTrialMeasurement ''studies/7/trials/1''
                    [\<lparr>metric_id = ''accuracy'', metric_value = f_0_9\<rparr>], Returned),
                 (CompleteTrial ''studies/7/trials/1'' False, Returned)]\<rparr>
   \<and> process_trial (scripted [terminal INFEASIBLE ''1'', terminal SUCCEEDED ''2''] (Inr history_0_9))
     notebook_config (terminal SUCCEEDED ''2'') (initial []) =
   Inr \<lparr>trial_id = PStr ''2'', batch_size = Some f_32, learning_rate = Some f_0_001,
        world = [],
        calls = [(GetTrial ''studies/7/trials/2'', Returned),
                 (CreateMetricsCall ''studies/7/trials/2'' 32 f_0_001 2 ''s'', Returned),
                 (AddTrialMeasurement ''studies/7/trials/2''
                    [\<lparr>metric_id = ''accuracy'', metric_value = f_0_9\<rparr>], Returned),
                 (CompleteTrial ''studies/7/trials/2'' False, Returned)]\<rparr>"
  by (simp add: process_trial_def py_last_def log_call_def CreateMetrics_def
      run_model_training_def history_0_9_def f_32_def initial_def)

text \<open>The calls that the step for the infeasible trial 1 has issued.\<close>

theorem terminal_trials_are_processed_witness:
  "new_calls (initial [])
     (process_trial
        (scripted [terminal INFEASIBLE ''1'', terminal SUCCEEDED ''2''] (Inr history_0_9))
        notebook_config (terminal INFEASIBLE ''1'') (initial []))
   = [(GetTrial ''studies/7/trials/1'', Returned),
      (CreateMetricsCall ''studies/7/trials/1'' 32 f_0_001 2 ''s'', Returned),
      (AddTrialMeasurement ''studies/7/trials/1''
         [\<lparr>metric_id = ''accuracy'', metric_value = f_0_9\<rparr>], Returned),
      (CompleteTrial ''studies/7/trials/1'' False, Returned)]"
  using terminal_trials_are_processed by (simp add: new_calls_def)

subsection \<open>C9: the arguments of the evaluation\<close>

text \<open>
  C9: for a processed trial, the evaluation is called with \<^verbatim>\<open>int(batch_size)\<close>, which
  for a float \<open>m * 2 ^ e\<close> is its integer part (rounded towards zero), and with the
  learning rate just as the trial gives it.
\<close>

theorem evaluation_receives_truncated_batch_size:
  assumes "get_trial env (name t) (world st) = Inr (tr, w')"
    and "assigned ''batch_size'' (parameters tr) = Some b"
    and "assigned ''learning_rate'' (parameters tr) = Some l"
    and "py_int b = Inr n"
  shows "(\<exists>oc rest. new_calls st (process_trial env cfg t st) =
            (GetTrial (name t), Returned) #
            (CreateMetricsCall (name t) n l (EPOCHS cfg) (STUDY_DISPLAY_NAME cfg), oc) # rest)
       \<and> (\<forall>m e. b = PFloat (Finite m e) \<longrightarrow>
            (0 \<le> e \<longrightarrow> n = m * 2 ^ nat e)
            \<and> (e < 0 \<longrightarrow> \<bar>n\<bar> = \<bar>m\<bar> div 2 ^ nat (- e) \<and> (0 \<le> m \<longrightarrow> 0 \<le> n) \<and> (m \<le> 0 \<longrightarrow> n \<le> 0)))"
proof
  have "new_calls st (process_trial env cfg t st) =
     (GetTrial (name t), Returned) #
     (case CreateMetrics env cfg (name t) n l (EPOCHS cfg) (STUDY_DISPLAY_NAME cfg) w' of
        Inl e \<Rightarrow> [(CreateMetricsCall (name t) n l (EPOCHS cfg) (STUDY_DISPLAY_NAME cfg), Raised e)]
      | Inr (ms, w4) \<Rightarrow>
          (CreateMetricsCall (name t) n l (EPOCHS cfg) (STUDY_DISPLAY_NAME cfg), Returned) #
          (case add_trial_measurement env (name t) ms w4 of
             Inl e \<Rightarrow> [(AddTrialMeasurement (name t) ms, Raised e)]
           | Inr w5 \<Rightarrow>
               [(AddTrialMeasurement (name t) ms, Returned),
                (CompleteTrial (name t) False,
                   (case complete_trial env (name t) False w5 of
                      Inl e \<Rightarrow> Raised e
                    | Inr w6 \<Rightarrow> Returned))]))"
    using assms by (rule process_trial_new_calls_own)
  then show "\<exists>oc rest. new_calls st (process_trial env cfg t st) =
            (GetTrial (name t), Returned) #
            (CreateMetricsCall (name t) n l (EPOCHS cfg) (STUDY_DISPLAY_NAME cfg), oc) # rest"
    by (cases "CreateMetrics env cfg (name t) n l (EPOCHS cfg) (STUDY_DISPLAY_NAME cfg) w'")
       (auto split: prod.splits)
next
  show "\<forall>m e. b = PFloat (Finite m e) \<longrightarrow>
            (0 \<le> e \<longrightarrow> n = m * 2 ^ nat e)
            \<and> (e < 0 \<longrightarrow> \<bar>n\<bar> = \<bar>m\<bar> div 2 ^ nat (- e) \<and> (0 \<le> m \<longrightarrow> 0 \<le> n) \<and> (m \<le> 0 \<longrightarrow> n \<le> 0))"
  proof (intro allI impI)
    fix m e assume "b = PFloat (Finite m e)"
    with \<open>py_int b = Inr n\<close> have "n = trunc_float m e" by simp
    then show "(0 \<le> e \<longrightarrow> n = m * 2 ^ nat e)
            \<and> (e < 0 \<longrightarrow> \<bar>n\<bar> = \<bar>m\<bar> div 2 ^ nat (- e) \<and> (0 \<le> m \<longrightarrow> 0 \<le> n) \<and> (m \<le> 0 \<longrightarrow> n \<le> 0))"
      using trunc_float_towards_zero[of e m] by blast
  qed
qed

text \<open>
  A trial with batch size 32.5: the evaluation gets 32.
\<close>

theorem evaluation_receives_truncated_batch_size_witness:
  "(\<exists>oc rest.
      new_calls (initial [])
        (process_trial
           (scripted [a_trial ''1'' ACTIVE
                        [param ''batch_size'' (PFloat (Finite 65 (- 1))),
                         param ''learning_rate'' f_0_001]] (Inr history_0_9))
           notebook_config
           (a_trial ''1'' ACTIVE
              [param ''batch_size'' (PFloat (Finite 65 (- 1))), param ''learning_rate'' f_0_001])
           (initial []))
      = (GetTrial ''studies/7/trials/1'', Returned)
        # (CreateMetricsCall ''studies/7/trials/1'' 32 f_0_001 2 ''s'', oc) # rest)
   \<and> \<bar>32 :: int\<bar> = \<bar>65\<bar> div 2 ^ nat (- (- 1))"
proof -
  let ?t = "a_trial ''1'' ACTIVE
              [param ''batch_size'' (PFloat (Finite 65 (- 1))), param ''learning_rate'' f_0_001]"
  let ?env = "scripted [?t] (Inr history_0_9)"
  have g: "get_trial ?env (name ?t) (world (initial [])) = Inr (?t, [])"
    by (simp add: a_trial_def)
  have ps: "assigned ''batch_size'' (parameters ?t) = Some (PFloat (Finite 65 (- 1)))"
    "assigned ''learning_rate'' (parameters ?t) = Some f_0_001"
    by (simp_all add: a_trial_def)
  have n: "py_int (PFloat (Finite 65 (- 1))) = Inr 32" by simp
  from evaluation_receives_truncated_batch_size[OF g ps n, where cfg = notebook_config]
  show ?thesis by (simp add: a_trial_def)
qed

subsection \<open>C10: the reported metric\<close>



end
